theory Spec2Isabelle
  imports Complex_Main "HOL-Library.Word"
begin

unbundle bit_operations_syntax

section \<open>JavaScript strings and numbers\<close>

text \<open>
  A JavaScript string is a sequence of UTF-16 code units; \<open>charCodeAt\<close> reads one of them
  as a number. A string is therefore modelled as the list of its code units, and a literal
  of the source is written \<open>js ''...''\<close>.
\<close>

type_synonym jsstring = "nat list"

definition js :: "string \<Rightarrow> jsstring" where
  "js s = map of_char s"

text \<open>
  A thrown value: \<open>new Error(message)\<close>, or an error of another class (the
  \<open>TypeError\<close> of a failed \<open>fetch\<close>, the \<open>SyntaxError\<close> of \<open>json()\<close>) with its name and
  its message. \<open>message_of\<close> is its \<open>message\<close> and \<open>toString_of\<close> its \<open>toString()\<close>.
\<close>

datatype error = Error jsstring | Thrown jsstring jsstring

fun message_of :: "error \<Rightarrow> jsstring" where
  "message_of (Error message) = message"
| "message_of (Thrown name message) = message"

fun toString_of :: "error \<Rightarrow> jsstring" where
  "toString_of (Error message) = js ''Error: '' @ message"
| "toString_of (Thrown name message) = name @ js '': '' @ message"

text \<open>\<open>ToInt32\<close>: the conversion applied by the bitwise operators of JavaScript.\<close>

definition toInt32 :: "int \<Rightarrow> int" where
  "toInt32 x = (x + 2 ^ 31) mod 2 ^ 32 - 2 ^ 31"

text \<open>\<open>a << k\<close> and \<open>a & b\<close> on numbers holding integers.\<close>

definition shl32 :: "int \<Rightarrow> nat \<Rightarrow> int" where
  "shl32 a k = toInt32 (toInt32 a * 2 ^ k)"

definition and32 :: "int \<Rightarrow> int \<Rightarrow> int" where
  "and32 a b = toInt32 a AND toInt32 b"

text \<open>\<open>v.toString(16)\<close> for a non-negative integer: lowercase digits, no leading zero.\<close>

definition hexdigit :: "nat \<Rightarrow> nat" where
  "hexdigit d = (if d < 10 then of_char CHR ''0'' + d else of_char CHR ''a'' + (d - 10))"

function toString16 :: "nat \<Rightarrow> jsstring" where
  "toString16 n = (if n < 16 then [hexdigit n] else toString16 (n div 16) @ [hexdigit (n mod 16)])"
  by pat_completeness auto
termination
  by (relation "measure id") auto

declare toString16.simps [simp del]

text \<open>
  \<open>parseInt(c, 16)\<close> of a one-character string: the digit's value, or \<open>NaN\<close> (here
  \<open>None\<close>) when the character is no hexadecimal digit.
\<close>

definition parseInt16 :: "nat \<Rightarrow> nat option" where
  "parseInt16 c =
     (if of_char CHR ''0'' \<le> c \<and> c \<le> of_char CHR ''9'' then Some (c - of_char CHR ''0'')
      else if of_char CHR ''a'' \<le> c \<and> c \<le> of_char CHR ''f'' then Some (c - of_char CHR ''a'' + 10)
      else if of_char CHR ''A'' \<le> c \<and> c \<le> of_char CHR ''F'' then Some (c - of_char CHR ''A'' + 10)
      else None)"

text \<open>\<open>s.slice(a, b)\<close> for non-negative indices, and \<open>parts.join('-')\<close>.\<close>

definition slice :: "nat \<Rightarrow> nat \<Rightarrow> jsstring \<Rightarrow> jsstring" where
  "slice a b s = drop a (take b s)"

fun join :: "jsstring \<Rightarrow> jsstring list \<Rightarrow> jsstring" where
  "join sep [] = []"
| "join sep [p] = p"
| "join sep (p # q # ps) = p @ sep @ join sep (q # ps)"

section \<open>Regular expressions of the UUID checks\<close>

text \<open>
  Both UUID patterns of the source are anchored (\<open>^...$\<close>) sequences of single-character
  classes, matched case-insensitively (\<open>/i\<close>). Such a pattern is a list of character
  predicates, and \<open>test\<close> holds when the string has one character per predicate.
\<close>

definition is_hex :: "nat \<Rightarrow> bool" where
  "is_hex c \<longleftrightarrow>
     (of_char CHR ''0'' \<le> c \<and> c \<le> of_char CHR ''9'') \<or>
     (of_char CHR ''a'' \<le> c \<and> c \<le> of_char CHR ''f'') \<or>
     (of_char CHR ''A'' \<le> c \<and> c \<le> of_char CHR ''F'')"

definition is_89ab :: "nat \<Rightarrow> bool" where
  "is_89ab c \<longleftrightarrow> c \<in> set (js ''89abAB'')"

definition is_lit :: "char \<Rightarrow> nat \<Rightarrow> bool" where
  "is_lit ch c \<longleftrightarrow> c = of_char ch"

definition regex_test :: "(nat \<Rightarrow> bool) list \<Rightarrow> jsstring \<Rightarrow> bool" where
  "regex_test rx s = list_all2 (\<lambda>p c. p c) rx s"

text \<open>\<open>/^[0-9a-f]{8}-[0-9a-f]{4}-4[0-9a-f]{3}-[89ab][0-9a-f]{3}-[0-9a-f]{12}$/i\<close>\<close>

definition uuid_v4_regex :: "(nat \<Rightarrow> bool) list" where
  "uuid_v4_regex =
     replicate 8 is_hex @ [is_lit CHR ''-''] @
     replicate 4 is_hex @ [is_lit CHR ''-''] @
     [is_lit CHR ''4''] @ replicate 3 is_hex @ [is_lit CHR ''-''] @
     [is_89ab] @ replicate 3 is_hex @ [is_lit CHR ''-''] @
     replicate 12 is_hex"

text \<open>\<open>/^[0-9a-f]{8}-[0-9a-f]{4}-[0-9a-f]{4}-[0-9a-f]{4}-[0-9a-f]{12}$/i\<close>\<close>

definition uuid_format_regex :: "(nat \<Rightarrow> bool) list" where
  "uuid_format_regex =
     replicate 8 is_hex @ [is_lit CHR ''-''] @
     replicate 4 is_hex @ [is_lit CHR ''-''] @
     replicate 4 is_hex @ [is_lit CHR ''-''] @
     replicate 4 is_hex @ [is_lit CHR ''-''] @
     replicate 12 is_hex"

section \<open>UUID helper functions (utils/uuid)\<close>

text \<open>The rolling hash of \<open>stringToUUID\<close>: the loop over \<open>charCodeAt(i)\<close>.\<close>

fun hash_loop :: "int \<Rightarrow> jsstring \<Rightarrow> int" where
  "hash_loop hash [] = hash"
| "hash_loop hash (char # rest) =
     (let hash1 = (shl32 hash 5 - hash) + int char;
          hash2 = and32 hash1 hash1
      in hash_loop hash2 rest)"

text \<open>\<open>while (hashHex.length < 32) hashHex = '0' + hashHex\<close>\<close>

function pad32 :: "jsstring \<Rightarrow> jsstring" where
  "pad32 hashHex = (if length hashHex < 32 then pad32 (of_char CHR ''0'' # hashHex) else hashHex)"
  by pat_completeness auto
termination
  by (relation "measure (\<lambda>h. 32 - length h)") auto

declare pad32.simps [simp del]

text \<open>
  \<open>(parseInt(hashHex[15], 16) & 0x3) | 0x8\<close>: a missing character or a non-digit gives
  \<open>NaN\<close>, which \<open>&\<close> reads as 0.
\<close>

definition variant_nibble :: "jsstring \<Rightarrow> nat" where
  "variant_nibble hashHex =
     (let parsed = (if 15 < length hashHex then parseInt16 (hashHex ! 15) else None);
          n = (case parsed of Some v \<Rightarrow> v | None \<Rightarrow> 0)
      in (n AND 3) OR 8)"

definition format_uuid :: "jsstring \<Rightarrow> jsstring" where
  "format_uuid hashHex =
     join (js ''-'')
       [slice 0 8 hashHex,
        slice 8 12 hashHex,
        js ''4'' @ slice 12 15 hashHex,
        toString16 (variant_nibble hashHex) @ slice 16 19 hashHex,
        slice 19 31 hashHex]"

definition stringToUUID :: "jsstring \<Rightarrow> error + jsstring" where
  "stringToUUID userIdString =
     (if userIdString = [] then
        Inl (Error (js ''Invalid input: userIdString must be a non-empty string''))
      else
        let hash = hash_loop 0 userIdString;
            positiveHash = nat \<bar>hash\<bar>;
            hashHex = pad32 (toString16 positiveHash);
            hashHex = (if length hashHex > 32 then take 32 hashHex else hashHex)
        in Inr (format_uuid hashHex))"

text \<open>The strict check of utils/uuid: version digit 4, variant digit in 8, 9, a, b.\<close>

definition isValidUUID :: "jsstring \<Rightarrow> bool" where
  "isValidUUID uuid = (if uuid = [] then False else regex_test uuid_v4_regex uuid)"

definition ensureUUID :: "jsstring \<Rightarrow> error + jsstring" where
  "ensureUUID input = (if isValidUUID input then Inr input else stringToUUID input)"

definition createNamespacedUUID :: "jsstring \<Rightarrow> jsstring \<Rightarrow> error + jsstring" where
  "createNamespacedUUID namespace v = (let combined = namespace @ js '':'' @ v in stringToUUID combined)"

text \<open>
  \<open>generateUUID\<close> (the same function in utils/uuid, in the submit handler and in the
  submission hook). \<open>Math.random() * 16 | 0\<close> is an integer from 0 to 15, a 4-bit word
  here; the random source is the sequence of these values, read from position \<open>k\<close> on.
  \<open>replace(/[xy]/g, f)\<close> calls \<open>f\<close> once for each \<open>x\<close> or \<open>y\<close> of the template, from
  left to right.
\<close>

type_synonym nibble = "4 word"

definition uuid_template :: jsstring where
  "uuid_template = js ''xxxxxxxx-xxxx-4xxx-yxxx-xxxxxxxxxxxx''"

fun replace_xy :: "jsstring \<Rightarrow> (nat \<Rightarrow> nibble) \<Rightarrow> nat \<Rightarrow> jsstring" where
  "replace_xy [] random k = []"
| "replace_xy (c # cs) random k =
     (if c = of_char CHR ''x'' \<or> c = of_char CHR ''y'' then
        (let r = random k;
             v = (if c = of_char CHR ''x'' then r else (r AND 3) OR 8)
         in toString16 (unat v) @ replace_xy cs random (Suc k))
      else c # replace_xy cs random k)"

definition generateUUID :: "(nat \<Rightarrow> nibble) \<Rightarrow> nat \<Rightarrow> jsstring" where
  "generateUUID random k = replace_xy uuid_template random k"

text \<open>The number of random values one call of \<open>generateUUID\<close> consumes.\<close>

definition uuid_draws :: nat where
  "uuid_draws = length (filter (\<lambda>c. c = of_char CHR ''x'' \<or> c = of_char CHR ''y'') uuid_template)"

section \<open>Rate limiting (lib/security)\<close>

record SecurityConfig =
  maxFileSize :: nat
  allowedFileTypes :: "jsstring list"
  sessionTimeout :: nat
  maxRequestsPerMinute :: nat
  encryptSensitiveData :: bool

definition defaultSecurityConfig :: SecurityConfig where
  "defaultSecurityConfig =
     \<lparr>maxFileSize = 10 * 1024 * 1024,
      allowedFileTypes = [js ''image/jpeg'', js ''image/png'', js ''image/webp'',
                          js ''audio/mpeg'', js ''audio/wav''],
      sessionTimeout = 60,
      maxRequestsPerMinute = 30,
      encryptSensitiveData = True\<rparr>"

record rate_entry =
  count :: nat
  resetTime :: int

type_synonym rateLimitCache = "jsstring \<rightharpoonup> rate_entry"

text \<open>
  \<open>SecurityManager.checkRateLimit\<close>: \<open>now\<close> is the value of \<open>Date.now()\<close>; the cache is
  the private map of the manager, returned updated.
\<close>

definition checkRateLimit ::
  "SecurityConfig \<Rightarrow> int \<Rightarrow> rateLimitCache \<Rightarrow> jsstring \<Rightarrow> bool \<times> rateLimitCache" where
  "checkRateLimit config now rateLimitCache identifier =
     (let windowMs = 60 * 1000;
          limit = maxRequestsPerMinute config
      in case rateLimitCache identifier of
           None \<Rightarrow>
             (True, rateLimitCache(identifier \<mapsto> \<lparr>count = 1, resetTime = now + windowMs\<rparr>))
         | Some current \<Rightarrow>
             if now > resetTime current then
               (True, rateLimitCache(identifier \<mapsto> \<lparr>count = 1, resetTime = now + windowMs\<rparr>))
             else if count current \<ge> limit then
               (False, rateLimitCache)
             else
               (True, rateLimitCache(identifier \<mapsto> current\<lparr>count := count current + 1\<rparr>)))"

text \<open>Successive calls for one identifier at the given times; the results in order.\<close>

fun checkRateLimit_calls ::
  "SecurityConfig \<Rightarrow> int list \<Rightarrow> rateLimitCache \<Rightarrow> jsstring \<Rightarrow> bool list \<times> rateLimitCache" where
  "checkRateLimit_calls config [] cache identifier = ([], cache)"
| "checkRateLimit_calls config (now # later) cache identifier =
     (let (allowed, cache1) = checkRateLimit config now cache identifier;
          (rest, cache2) = checkRateLimit_calls config later cache1 identifier
      in (allowed # rest, cache2))"

section \<open>The store\<close>

text \<open>
  The tables the code reads and writes, with the columns the properties below depend on
  (timestamps, the raw provider response and the parsed topic, difficulty and tags are
  left out). \<open>status\<close> holds one of the four values the schema allows.
\<close>

datatype status = Pending | Processing | Completed | StatusError

record problem_submission =
  user_id :: jsstring
  title :: jsstring
  input_type :: jsstring
  text_content :: "jsstring option"
  image_url :: "jsstring option"
  voice_url :: "jsstring option"
  status :: status
  solution :: "jsstring option"
  error_message :: "jsstring option"

record user_row =
  email :: jsstring
  first_name :: jsstring
  last_name :: jsstring
  is_guest :: bool

text \<open>\<open>session_start\<close> and \<open>session_end\<close> are times in milliseconds, as \<open>getTime()\<close> reads them.\<close>

record learning_session =
  ls_user_id :: jsstring
  session_start :: int
  session_end :: "int option"
  session_metadata :: "jsstring \<rightharpoonup> jsstring"

record audit_log =
  al_user_id :: "jsstring option"
  al_action :: jsstring
  al_resource_type :: jsstring
  al_resource_id :: "jsstring option"
  al_new_values :: "(jsstring \<times> jsstring) list"

text \<open>
  \<open>users\<close>, \<open>problem_submissions\<close> and \<open>learning_sessions\<close> have \<open>id\<close> as primary key, so
  each is a map from ids to rows; \<open>audit_logs\<close> is only appended to.
\<close>

record database =
  users :: "jsstring \<rightharpoonup> user_row"
  problem_submissions :: "jsstring \<rightharpoonup> problem_submission"
  learning_sessions :: "jsstring \<rightharpoonup> learning_session"
  audit_logs :: "audit_log list"

section \<open>The submit handler (edge function)\<close>

text \<open>\<open>!v\<close> on an optional string holds for \<open>undefined\<close> and for the empty string.\<close>

definition truthy :: "jsstring option \<Rightarrow> bool" where
  "truthy v = (case v of None \<Rightarrow> False | Some s \<Rightarrow> s \<noteq> [])"

text \<open>\<open>v || null\<close>\<close>

definition or_null :: "jsstring option \<Rightarrow> jsstring option" where
  "or_null v = (if truthy v then v else None)"

text \<open>Template literals print a number in decimal.\<close>

function toString10 :: "nat \<Rightarrow> jsstring" where
  "toString10 n =
     (if n < 10 then [of_char CHR ''0'' + n]
      else toString10 (n div 10) @ [of_char CHR ''0'' + n mod 10])"
  by pat_completeness auto
termination
  by (relation "measure id") auto

declare toString10.simps [simp del]

definition DEFAULT_USER_ID :: jsstring where
  "DEFAULT_USER_ID = js ''12345678-1234-5678-1234-567812345678''"

text \<open>
  The body of a request is typed \<open>ProblemSubmissionRequest\<close>, yet it is parsed JSON: every
  field may be absent, and \<open>input_type\<close> may be any string.
\<close>

record ProblemSubmissionRequest =
  rq_input_type :: "jsstring option"
  rq_title :: "jsstring option"
  rq_description :: "jsstring option"
  rq_text_content :: "jsstring option"
  rq_image_data :: "jsstring option"
  rq_voice_url :: "jsstring option"
  rq_user_id :: "jsstring option"

text \<open>\<open>req.json()\<close> returns the body or throws.\<close>

record http_request =
  http_method :: jsstring
  json :: "error + ProblemSubmissionRequest"

text \<open>
  What the provider call does: \<open>fetch\<close> throws, or the response is not \<open>ok\<close> (with its
  status and text), or it is \<open>ok\<close> and \<open>json()\<close> throws, or it is \<open>ok\<close> and
  \<open>candidates?.[0]?.content?.parts?.[0]?.text\<close> is the given optional string.
\<close>

datatype gemini_outcome =
    FetchThrows error
  | ResponseNotOk nat jsstring
  | ResponseJsonThrows error
  | ResponseOk "jsstring option"

text \<open>
  Everything outside the handler that one invocation depends on: the environment
  variables, the random source, the provider, and whether a store operation returns an
  error (other than the ones the store's contents decide): \<open>Some message\<close> is the error.
\<close>

record handler_env =
  SUPABASE_URL :: "jsstring option"
  SUPABASE_SERVICE_ROLE_KEY :: "jsstring option"
  GOOGLE_API_KEY :: "jsstring option"
  random :: "nat \<Rightarrow> nibble"
  user_check_error :: "jsstring option"
  create_user_error :: "jsstring option"
  insert_error :: "jsstring option"
  update_error :: "jsstring option"
  gemini :: gemini_outcome

record response_body =
  success :: bool
  rb_error :: "jsstring option"
  rb_details :: "jsstring option"
  problemId :: "jsstring option"
  rb_status :: "status option"
  rb_solution :: "jsstring option"

datatype response = PlainOk | JsonResponse nat response_body

text \<open>The check of the handler (and of the submission hook): the UUID shape, any version.\<close>

definition isValidUUID_format :: "jsstring \<Rightarrow> bool" where
  "isValidUUID_format uuid = regex_test uuid_format_regex uuid"

definition validate_request :: "ProblemSubmissionRequest \<Rightarrow> error + unit" where
  "validate_request requestBody =
     (if \<not> truthy (rq_input_type requestBody) \<or> \<not> truthy (rq_title requestBody) then
        Inl (Error (js ''Missing required fields: input_type and title are required''))
      else if rq_input_type requestBody = Some (js ''text'') \<and> \<not> truthy (rq_text_content requestBody) then
        Inl (Error (js ''text_content is required for text input type''))
      else if rq_input_type requestBody = Some (js ''image'') \<and> \<not> truthy (rq_image_data requestBody) then
        Inl (Error (js ''image_data is required for image input type''))
      else if rq_input_type requestBody = Some (js ''voice'') \<and> \<not> truthy (rq_voice_url requestBody) then
        Inl (Error (js ''voice_url is required for voice input type''))
      else Inr ())"

text \<open>
  The owner of the submission; the second component is the number of random values used.
\<close>

definition resolve_user_id :: "(nat \<Rightarrow> nibble) \<Rightarrow> jsstring option \<Rightarrow> jsstring \<times> nat" where
  "resolve_user_id rnd supplied =
     (case supplied of
        None \<Rightarrow> (DEFAULT_USER_ID, 0)
      | Some userId \<Rightarrow>
          if userId = [] then (DEFAULT_USER_ID, 0)
          else if \<not> isValidUUID_format userId then (generateUUID rnd 0, uuid_draws)
          else (userId, 0))"

text \<open>
  The user check: \<open>single()\<close> gives error \<open>PGRST116\<close> when no row has the id; then a guest
  user is created. Every failure here is logged and the handler continues.
\<close>

definition ensure_user_exists :: "handler_env \<Rightarrow> jsstring \<Rightarrow> database \<Rightarrow> database" where
  "ensure_user_exists env userId db =
     (case user_check_error env of
        Some other \<Rightarrow> db
      | None \<Rightarrow>
          (case users db userId of
             Some existingUser \<Rightarrow> db
           | None \<Rightarrow>
               (case create_user_error env of
                  Some createUserError \<Rightarrow> db
                | None \<Rightarrow>
                    db\<lparr>users := (users db)(userId \<mapsto>
                      \<lparr>email = (if userId = DEFAULT_USER_ID then js ''guest@example.com''
                                else js ''user-'' @ userId @ js ''@example.com''),
                       first_name = js ''Guest'',
                       last_name = js ''User'',
                       is_guest = True\<rparr>)\<rparr>)))"

text \<open>
  Insert into \<open>problem_submissions\<close>: the result is the error message, or the new store.
  An id that is already present violates the primary key.
\<close>

definition insert_submission ::
  "handler_env \<Rightarrow> jsstring \<Rightarrow> problem_submission \<Rightarrow> database \<Rightarrow> jsstring + database" where
  "insert_submission env ident row db =
     (case insert_error env of
        Some message \<Rightarrow> Inl message
      | None \<Rightarrow>
          (case problem_submissions db ident of
             Some existing \<Rightarrow> Inl (js ''duplicate key value violates unique constraint'')
           | None \<Rightarrow> Inr (db\<lparr>problem_submissions := (problem_submissions db)(ident \<mapsto> row)\<rparr>)))"

text \<open>\<open>update(...).eq('id', ident)\<close>: the new store and the error, if any.\<close>

definition update_submission ::
  "handler_env \<Rightarrow> jsstring \<Rightarrow> (problem_submission \<Rightarrow> problem_submission) \<Rightarrow> database
     \<Rightarrow> database \<times> jsstring option" where
  "update_submission env ident change db =
     (case update_error env of
        Some message \<Rightarrow> (db, Some message)
      | None \<Rightarrow>
          (case problem_submissions db ident of
             None \<Rightarrow> (db, None)
           | Some row \<Rightarrow>
               (db\<lparr>problem_submissions := (problem_submissions db)(ident \<mapsto> change row)\<rparr>, None)))"

text \<open>
  The first part of the \<open>try\<close> block, up to the insert of the record: the store, and
  either the thrown error or the parsed body with the id of the new record.
\<close>

definition create_submission ::
  "handler_env \<Rightarrow> http_request \<Rightarrow> database
     \<Rightarrow> database \<times> (error + ProblemSubmissionRequest \<times> jsstring)" where
  "create_submission env req db =
     (if \<not> truthy (SUPABASE_URL env) then
        (db, Inl (Error (js ''SUPABASE_URL environment variable is missing'')))
      else if \<not> truthy (SUPABASE_SERVICE_ROLE_KEY env) then
        (db, Inl (Error (js ''SUPABASE_SERVICE_ROLE_KEY environment variable is missing'')))
      else
        case json req of
          Inl thrown \<Rightarrow> (db, Inl thrown)
        | Inr requestBody \<Rightarrow>
            (case validate_request requestBody of
               Inl thrown \<Rightarrow> (db, Inl thrown)
             | Inr ok \<Rightarrow>
                 (let (userId, k) = resolve_user_id (random env) (rq_user_id requestBody);
                      db1 = ensure_user_exists env userId db;
                      problemId = generateUUID (random env) k;
                      row = \<lparr>user_id = userId,
                             title = (case rq_title requestBody of Some t \<Rightarrow> t | None \<Rightarrow> []),
                             input_type = (case rq_input_type requestBody of Some t \<Rightarrow> t | None \<Rightarrow> []),
                             text_content = or_null (rq_text_content requestBody),
                             image_url = or_null (rq_image_data requestBody),
                             voice_url = or_null (rq_voice_url requestBody),
                             status = Processing,
                             solution = None,
                             error_message = None\<rparr>
                  in case insert_submission env problemId row db1 of
                       Inl message \<Rightarrow>
                         (db1, Inl (Error (js ''Failed to create problem submission: '' @ message)))
                     | Inr db2 \<Rightarrow> (db2, Inr (requestBody, problemId)))))"

text \<open>The rest of the \<open>try\<close> block: the provider call and the update of the record.\<close>

definition process_submission ::
  "handler_env \<Rightarrow> ProblemSubmissionRequest \<Rightarrow> jsstring \<Rightarrow> database
     \<Rightarrow> database \<times> (error + response)" where
  "process_submission env requestBody ident db =
     (if \<not> truthy (GOOGLE_API_KEY env) then
        (let (db1, ignored) =
               update_submission env ident
                 (\<lambda>row. row\<lparr>status := StatusError,
                              error_message := Some (js ''Google API key not configured'')\<rparr>) db
         in (db1, Inr (JsonResponse 500
               \<lparr>success = False, rb_error = Some (js ''Google API key not configured''),
                rb_details = None, problemId = Some ident, rb_status = None, rb_solution = None\<rparr>)))
      else
        case gemini env of
          FetchThrows thrown \<Rightarrow> (db, Inl thrown)
        | ResponseNotOk code errorText \<Rightarrow>
            (let message = js ''Gemini API error: '' @ toString10 code;
                 (db1, ignored) =
                   update_submission env ident
                     (\<lambda>row. row\<lparr>status := StatusError, error_message := Some message\<rparr>) db
             in (db1, Inr (JsonResponse 500
                   \<lparr>success = False, rb_error = Some message,
                    rb_details = None, problemId = Some ident, rb_status = None, rb_solution = None\<rparr>)))
        | ResponseJsonThrows thrown \<Rightarrow> (db, Inl thrown)
        | ResponseOk text \<Rightarrow>
            (let sol = (case text of
                          None \<Rightarrow> js ''No solution generated''
                        | Some t \<Rightarrow> if t = [] then js ''No solution generated'' else t);
                 (db1, updateError) =
                   update_submission env ident
                     (\<lambda>row. row\<lparr>solution := Some sol, status := Completed\<rparr>) db
             in case updateError of
                  Some message \<Rightarrow>
                    (db1, Inl (Error (js ''Failed to update problem submission: '' @ message)))
                | None \<Rightarrow>
                    (db1, Inr (JsonResponse 200
                       \<lparr>success = True, rb_error = None, rb_details = None,
                        problemId = Some ident, rb_status = Some Completed,
                        rb_solution = Some sol\<rparr>))))"

text \<open>
  The handler: the preflight answer, or the \<open>try\<close> block with its \<open>catch\<close>, which turns
  every thrown error into a response with status 500 and touches the store no more.
\<close>

definition serve :: "handler_env \<Rightarrow> http_request \<Rightarrow> database \<Rightarrow> response \<times> database" where
  "serve env req db =
     (if http_method req = js ''OPTIONS'' then (PlainOk, db)
      else
        let (db2, outcome) =
              (case create_submission env req db of
                 (db1, Inl thrown) \<Rightarrow> (db1, Inl thrown)
               | (db1, Inr (requestBody, ident)) \<Rightarrow> process_submission env requestBody ident db1)
        in case outcome of
             Inl thrown \<Rightarrow>
               (JsonResponse 500
                  \<lparr>success = False, rb_error = Some (message_of thrown),
                   rb_details = Some (toString_of thrown),
                   problemId = None, rb_status = None, rb_solution = None\<rparr>, db2)
           | Inr resp \<Rightarrow> (resp, db2))"

text \<open>
  The order on the status values: a status stays as it is, or moves from \<open>pending\<close> or
  \<open>processing\<close> to \<open>completed\<close> or \<open>error\<close>.
\<close>

definition status_forward :: "status \<Rightarrow> status \<Rightarrow> bool" where
  "status_forward s s' \<longleftrightarrow>
     s' = s \<or> ((s = Pending \<or> s = Processing) \<and> (s' = Completed \<or> s' = StatusError))"

text \<open>
  Concrete inputs for the handler: a POST request with the body
  \<open>{input_type: "text", title: "T", text_content: "2+2?"}\<close> and the given \<open>user_id\<close>;
  an environment with all variables set, no store error, a random source that always
  gives 0, and the given provider outcome; and a store with no rows.
\<close>

definition text_request :: "jsstring option \<Rightarrow> http_request" where
  "text_request owner =
     \<lparr>http_method = js ''POST'',
      json = Inr \<lparr>rq_input_type = Some (js ''text''), rq_title = Some (js ''T''),
                  rq_description = None, rq_text_content = Some (js ''2+2?''),
                  rq_image_data = None, rq_voice_url = None, rq_user_id = owner\<rparr>\<rparr>"

definition image_request_without_data :: http_request where
  "image_request_without_data =
     \<lparr>http_method = js ''POST'',
      json = Inr \<lparr>rq_input_type = Some (js ''image''), rq_title = Some (js ''T''),
                  rq_description = None, rq_text_content = None,
                  rq_image_data = None, rq_voice_url = None, rq_user_id = None\<rparr>\<rparr>"

definition working_env :: "gemini_outcome \<Rightarrow> handler_env" where
  "working_env outcome =
     \<lparr>SUPABASE_URL = Some (js ''https://project.supabase.co''),
      SUPABASE_SERVICE_ROLE_KEY = Some (js ''service-role-key''),
      GOOGLE_API_KEY = Some (js ''google-api-key''),
      random = (\<lambda>k. 0),
      user_check_error = None,
      create_user_error = None,
      insert_error = None,
      update_error = None,
      gemini = outcome\<rparr>"

definition empty_database :: database where
  "empty_database =
     \<lparr>users = Map.empty, problem_submissions = Map.empty,
      learning_sessions = Map.empty, audit_logs = []\<rparr>"

text \<open>A store whose only record is a completed submission of the guest user.\<close>

definition completed_row :: problem_submission where
  "completed_row =
     \<lparr>user_id = DEFAULT_USER_ID, title = js ''earlier'', input_type = js ''text'',
      text_content = Some (js ''1+1?''), image_url = None, voice_url = None,
      status = Completed, solution = Some (js ''2''), error_message = None\<rparr>"

definition database_with_completed :: database where
  "database_with_completed =
     empty_database\<lparr>problem_submissions :=
       [js ''aaaaaaaa-aaaa-4aaa-8aaa-aaaaaaaaaaaa'' \<mapsto> completed_row]\<rparr>"

section \<open>The submission hook: polling (hooks/useProblemSubmission)\<close>

record ProblemResult =
  pr_id :: jsstring
  pr_status :: status
  pr_solution :: "jsstring option"
  pr_explanation :: "jsstring option"
  pr_errorMessage :: "jsstring option"

text \<open>The state of the hook (\<open>result\<close> and \<open>error\<close>) and what \<open>useAuth\<close> gives it.\<close>

record submission_state =
  result :: "ProblemResult option"
  error_state :: "jsstring option"

record auth_context =
  isAuthenticated :: bool
  auth_user_id :: "jsstring option"

text \<open>
  A query of the client may fail on its own account: it returns an error, or it throws.
\<close>

datatype query_fault = NoFault | ReturnsError | Throws

text \<open>
  \<open>from('problem_submissions').select('*').eq('id', problemId)\<close>, filtered by
  \<open>user_id\<close> when authenticated, then \<open>single()\<close>: the row and no error, or no row and an
  error. It reads the store and returns nothing else.
\<close>

definition query_submission ::
  "auth_context \<Rightarrow> jsstring \<Rightarrow> database \<Rightarrow> problem_submission option \<times> bool" where
  "query_submission auth ident db =
     (let by_id = problem_submissions db ident;
          filtered =
            (case auth_user_id auth of
               None \<Rightarrow> by_id
             | Some uid \<Rightarrow>
                 if isAuthenticated auth \<and> uid \<noteq> [] \<and> isValidUUID_format uid then
                   (case by_id of
                      None \<Rightarrow> None
                    | Some row \<Rightarrow> if user_id row = uid then Some row else None)
                 else by_id)
      in case filtered of None \<Rightarrow> (None, True) | Some row \<Rightarrow> (Some row, False))"

definition maxAttempts :: nat where
  "maxAttempts = 60"

text \<open>
  One run of \<open>poll\<close>: the new state of the hook, the new value of \<open>attempts\<close>, the delay
  of the \<open>setTimeout(poll, ...)\<close> it makes (if it makes one), whether it sent the query,
  and the store afterwards.
\<close>

record tick =
  tick_state :: submission_state
  tick_attempts :: nat
  tick_timer :: "nat option"
  tick_queried :: bool
  tick_db :: database

definition poll ::
  "auth_context \<Rightarrow> query_fault \<Rightarrow> jsstring \<Rightarrow> database \<Rightarrow> nat \<Rightarrow> submission_state \<Rightarrow> tick" where
  "poll auth fault ident db attempts st =
     (if \<not> isValidUUID_format ident then
        \<lparr>tick_state = st\<lparr>error_state := Some (js ''Failed to check problem status'')\<rparr>,
         tick_attempts = attempts, tick_timer = None, tick_queried = False, tick_db = db\<rparr>
      else if fault = Throws then
        \<lparr>tick_state = st\<lparr>error_state := Some (js ''Failed to check problem status'')\<rparr>,
         tick_attempts = attempts, tick_timer = None, tick_queried = True, tick_db = db\<rparr>
      else
        let (data, fetchError) =
              (if fault = ReturnsError then (None, True) else query_submission auth ident db)
        in if fetchError then
             \<lparr>tick_state = st\<lparr>error_state := Some (js ''Failed to check problem status'')\<rparr>,
              tick_attempts = attempts, tick_timer = None, tick_queried = True, tick_db = db\<rparr>
           else
             case data of
               None \<Rightarrow>
                 \<lparr>tick_state = st\<lparr>error_state := Some (js ''Problem not found'')\<rparr>,
                  tick_attempts = attempts, tick_timer = None, tick_queried = True, tick_db = db\<rparr>
             | Some row \<Rightarrow>
                 (let newResult =
                        \<lparr>pr_id = ident, pr_status = status row,
                         pr_solution = or_null (solution row),
                         pr_explanation = or_null (solution row),
                         pr_errorMessage = or_null (error_message row)\<rparr>;
                      st1 = st\<lparr>result := Some newResult\<rparr>
                  in if status row = Completed \<or> status row = StatusError then
                       \<lparr>tick_state =
                          (if status row = StatusError then
                             st1\<lparr>error_state :=
                                   Some (case or_null (error_message row) of
                                           Some message \<Rightarrow> message
                                         | None \<Rightarrow> js ''Problem processing failed'')\<rparr>
                           else st1),
                        tick_attempts = attempts, tick_timer = None, tick_queried = True,
                        tick_db = db\<rparr>
                     else
                       (let attempts1 = attempts + 1
                        in if attempts1 < maxAttempts then
                             \<lparr>tick_state = st1, tick_attempts = attempts1,
                              tick_timer = Some 2000, tick_queried = True, tick_db = db\<rparr>
                           else
                             \<lparr>tick_state = st1\<lparr>error_state := Some (js ''Problem processing timed out'')\<rparr>,
                              tick_attempts = attempts1, tick_timer = None, tick_queried = True,
                              tick_db = db\<rparr>)))"

text \<open>
  \<open>pollForCompletion\<close>: the first run of \<open>poll\<close> is set 1000 ms ahead, and each run that sets
  a timer is followed by the next one. The trace keeps the state of the hook, the number
  of queries sent, the delays of all timers set, in order, and the store. \<open>faults n\<close> is
  the fault of the query of the run that starts with \<open>attempts = n\<close>.
\<close>

record poll_trace =
  pt_state :: submission_state
  pt_queries :: nat
  pt_timers :: "nat list"
  pt_db :: database

function poll_loop ::
  "auth_context \<Rightarrow> (nat \<Rightarrow> query_fault) \<Rightarrow> jsstring \<Rightarrow> nat \<Rightarrow> poll_trace \<Rightarrow> poll_trace" where
  "poll_loop auth faults ident attempts tr =
     (let t = poll auth (faults attempts) ident (pt_db tr) attempts (pt_state tr);
          tr1 = \<lparr>pt_state = tick_state t,
                 pt_queries = pt_queries tr + (if tick_queried t then 1 else 0),
                 pt_timers = pt_timers tr @ (case tick_timer t of None \<Rightarrow> [] | Some ms \<Rightarrow> [ms]),
                 pt_db = tick_db t\<rparr>
      in case tick_timer t of
           None \<Rightarrow> tr1
         | Some ms \<Rightarrow> poll_loop auth faults ident (tick_attempts t) tr1)"
  by pat_completeness auto
termination
proof (relation "measure (\<lambda>(auth, faults, ident, attempts, tr). maxAttempts - attempts)")
  show "wf (measure (\<lambda>(auth, faults, ident, attempts, tr). maxAttempts - attempts))"
    by simp
next
  fix auth :: auth_context and faults :: "nat \<Rightarrow> query_fault" and ident :: jsstring
    and attempts :: nat and tr :: poll_trace and t :: tick and tr1 :: poll_trace and ms :: nat
  assume t: "t = poll auth (faults attempts) ident (pt_db tr) attempts (pt_state tr)"
    and timer: "tick_timer t = Some ms"
  have "tick_attempts t = attempts + 1 \<and> attempts + 1 < maxAttempts"
    using timer unfolding t poll_def Let_def
    by (simp split: if_splits prod.splits option.splits) blast
  then have "maxAttempts - tick_attempts t < maxAttempts - attempts" by arith
  then show "((auth, faults, ident, tick_attempts t, tr1), (auth, faults, ident, attempts, tr))
               \<in> measure (\<lambda>(auth, faults, ident, attempts, tr). maxAttempts - attempts)"
    by simp
qed

declare poll_loop.simps [simp del]

definition pollForCompletion ::
  "auth_context \<Rightarrow> (nat \<Rightarrow> query_fault) \<Rightarrow> jsstring \<Rightarrow> submission_state \<Rightarrow> database \<Rightarrow> poll_trace" where
  "pollForCompletion auth faults ident st db =
     poll_loop auth faults ident 0 \<lparr>pt_state = st, pt_queries = 0, pt_timers = [1000], pt_db = db\<rparr>"

text \<open>
  Concrete inputs for the polling: a caller who is not authenticated, a hook with no
  result and no error, and a store whose only record is at \<open>processing\<close>.
\<close>

definition guest_auth :: auth_context where
  "guest_auth = \<lparr>isAuthenticated = False, auth_user_id = None\<rparr>"

definition initial_state :: submission_state where
  "initial_state = \<lparr>result = None, error_state = None\<rparr>"

definition processing_row :: problem_submission where
  "processing_row =
     \<lparr>user_id = DEFAULT_USER_ID, title = js ''T'', input_type = js ''text'',
      text_content = Some (js ''2+2?''), image_url = None, voice_url = None,
      status = Processing, solution = None, error_message = None\<rparr>"

definition database_with_processing :: database where
  "database_with_processing =
     empty_database\<lparr>problem_submissions :=
       [js ''00000000-0000-4000-8000-000000000000'' \<mapsto> processing_row]\<rparr>"

section \<open>Secure sessions (hooks/useSecureSession)\<close>

record SecureSession =
  ss_id :: jsstring
  ss_userId :: jsstring
  ss_startTime :: int
  ss_isActive :: bool
  ss_securityLevel :: jsstring
  ss_metadata :: "jsstring \<rightharpoonup> jsstring"

text \<open>The state of the hook: \<open>session\<close> and \<open>error\<close>.\<close>

record session_hook =
  session :: "SecureSession option"
  session_error :: "jsstring option"

text \<open>
  What one call depends on beside the store: the fault of its query, the error of the
  update in \<open>endSession\<close> (if any), whether the audit insert fails, and the two readings
  of the clock (\<open>new Date()\<close> in \<open>validateSessionSecurity\<close> and in \<open>endSession\<close>).
\<close>

record session_env =
  select_fault :: query_fault
  end_update_error :: "jsstring option"
  audit_fails :: bool
  clock_now :: int
  clock_end :: int

text \<open>\<open>securityManager.logSecurityEvent\<close>: a failure is caught and logged.\<close>

definition logSecurityEvent ::
  "session_env \<Rightarrow> jsstring option \<Rightarrow> jsstring \<Rightarrow> jsstring \<Rightarrow> jsstring option
     \<Rightarrow> (jsstring \<times> jsstring) list \<Rightarrow> database \<Rightarrow> database" where
  "logSecurityEvent env userId action resourceType resourceId metadata db =
     (if audit_fails env then db
      else db\<lparr>audit_logs := audit_logs db @
                 [\<lparr>al_user_id = userId, al_action = action, al_resource_type = resourceType,
                   al_resource_id = resourceId, al_new_values = metadata\<rparr>]\<rparr>)"

text \<open>
  \<open>endSession(sessionId)\<close>, with \<open>user?.id\<close> as \<open>user\<close>. An error of the update is thrown
  and caught inside: it is no \<open>Error\<close> object, so the message is the fixed one.
\<close>

definition endSession ::
  "session_env \<Rightarrow> jsstring option \<Rightarrow> jsstring option \<Rightarrow> session_hook \<Rightarrow> database
     \<Rightarrow> bool \<times> session_hook \<times> database" where
  "endSession env user sessionId hook db =
     (let targetSessionId =
            (if truthy sessionId then sessionId else map_option ss_id (session hook))
      in case targetSessionId of
           None \<Rightarrow> (False, hook, db)
         | Some target \<Rightarrow>
             (case user of
                None \<Rightarrow> (False, hook, db)
              | Some uid \<Rightarrow>
                  if target = [] \<or> uid = [] then (False, hook, db)
                  else
                    (let hook1 = hook\<lparr>session_error := None\<rparr>
                     in case end_update_error env of
                          Some updateError \<Rightarrow>
                            (False, hook1\<lparr>session_error := Some (js ''Failed to end session'')\<rparr>, db)
                        | None \<Rightarrow>
                            (let base = (case session hook of
                                           None \<Rightarrow> Map.empty
                                         | Some s \<Rightarrow> ss_metadata s);
                                 merged = base(js ''ended_by'' \<mapsto> js ''user'',
                                               js ''end_reason'' \<mapsto> js ''manual'');
                                 db1 = (case learning_sessions db target of
                                          None \<Rightarrow> db
                                        | Some row \<Rightarrow>
                                            if ls_user_id row = uid then
                                              db\<lparr>learning_sessions := (learning_sessions db)(target \<mapsto>
                                                    row\<lparr>session_end := Some (clock_end env),
                                                        session_metadata := merged\<rparr>)\<rparr>
                                            else db);
                                 db2 = logSecurityEvent env (Some uid) (js ''session_ended'')
                                         (js ''learning_session'') (Some target)
                                         [(js ''endReason'', js ''manual'')] db1
                             in (True, hook1\<lparr>session := None\<rparr>, db2)))))"

text \<open>
  \<open>from('learning_sessions').select('*').eq('id', ...).eq('user_id', ...).single()\<close>
\<close>

definition query_session ::
  "jsstring \<Rightarrow> jsstring \<Rightarrow> database \<Rightarrow> learning_session option \<times> bool" where
  "query_session ident uid db =
     (case learning_sessions db ident of
        None \<Rightarrow> (None, True)
      | Some row \<Rightarrow> if ls_user_id row = uid then (Some row, False) else (None, True))"

text \<open>\<open>validateSessionSecurity()\<close>: the answer, the state of the hook and the store.\<close>

definition validateSessionSecurity ::
  "session_env \<Rightarrow> jsstring option \<Rightarrow> session_hook \<Rightarrow> database \<Rightarrow> bool \<times> session_hook \<times> database" where
  "validateSessionSecurity env user hook db =
     (case session hook of
        None \<Rightarrow> (False, hook, db)
      | Some s \<Rightarrow>
          (case user of
             None \<Rightarrow> (False, hook, db)
           | Some uid \<Rightarrow>
               if ss_id s = [] \<or> uid = [] then (False, hook, db)
               else if select_fault env = Throws then (False, hook, db)
               else
                 (let (sessionData, err) =
                        (if select_fault env = ReturnsError then (None, True)
                         else query_session (ss_id s) uid db)
                  in case sessionData of
                       None \<Rightarrow> (False, hook\<lparr>session := None\<rparr>, db)
                     | Some row \<Rightarrow>
                         if err then (False, hook\<lparr>session := None\<rparr>, db)
                         else
                           (let hoursSinceStart =
                                  real_of_int (clock_now env - session_start row) / (1000 * 60 * 60)
                            in if hoursSinceStart > 1 then
                                 (let (ended, hook1, db1) = endSession env user (Some (ss_id s)) hook db
                                  in (False, hook1, db1))
                               else (True, hook, db)))))"

text \<open>
  Concrete inputs for the session check: a store with one open session of the guest
  user that started at time 0, the hook holding that session, and an environment with no
  query fault, the given reading of the clock and the given error of the update.
\<close>

definition open_session_row :: learning_session where
  "open_session_row =
     \<lparr>ls_user_id = DEFAULT_USER_ID, session_start = 0, session_end = None,
      session_metadata = [js ''security_level'' \<mapsto> js ''standard'']\<rparr>"

definition database_with_session :: database where
  "database_with_session =
     empty_database\<lparr>learning_sessions :=
       [js ''bbbbbbbb-bbbb-4bbb-8bbb-bbbbbbbbbbbb'' \<mapsto> open_session_row]\<rparr>"

definition hook_with_session :: session_hook where
  "hook_with_session =
     \<lparr>session = Some
        \<lparr>ss_id = js ''bbbbbbbb-bbbb-4bbb-8bbb-bbbbbbbbbbbb'', ss_userId = DEFAULT_USER_ID,
         ss_startTime = 0, ss_isActive = True, ss_securityLevel = js ''standard'',
         ss_metadata = [js ''security_level'' \<mapsto> js ''standard'']\<rparr>,
      session_error = None\<rparr>"

definition session_env_at :: "int \<Rightarrow> jsstring option \<Rightarrow> session_env" where
  "session_env_at t updateError =
     \<lparr>select_fault = NoFault, end_update_error = updateError, audit_fails = False,
      clock_now = t, clock_end = t\<rparr>"

section \<open>Properties\<close>

subsection \<open>UUID helper functions\<close>

lemma toInt32_range: "- (2^31) \<le> toInt32 x \<and> toInt32 x < 2^31"
  unfolding toInt32_def by (simp add: pos_mod_bound pos_mod_sign)

lemma and32_self: "and32 x x = toInt32 x"
  by (simp add: and32_def)

lemma hash_loop_range: "- (2^31) \<le> h \<Longrightarrow> h < 2^31 \<Longrightarrow> - (2^31) \<le> hash_loop h s \<and> hash_loop h s < 2^31"
proof (induction s arbitrary: h)
  case Nil
  then show ?case by simp
next
  case (Cons c s)
  have "- (2^31) \<le> toInt32 (shl32 h 5 - h + int c)" "toInt32 (shl32 h 5 - h + int c) < 2^31"
    using toInt32_range[of "shl32 h 5 - h + int c"] by simp_all
  from Cons.IH[OF this] show ?case by (simp add: and32_self Let_def)
qed

lemma is_hex_hexdigit: "d < 16 \<Longrightarrow> is_hex (hexdigit d)"
  by (auto simp: is_hex_def hexdigit_def)

lemma toString16_hex: "list_all is_hex (toString16 n)"
  by (induction n rule: toString16.induct) (subst toString16.simps, simp add: is_hex_hexdigit)

lemma toString16_length: "n < 16 ^ k \<Longrightarrow> 0 < k \<Longrightarrow> length (toString16 n) \<le> k"
proof (induction n arbitrary: k rule: toString16.induct)
  case (1 n)
  show ?case
  proof (cases "n < 16")
    case True
    then show ?thesis using 1(3) by (subst toString16.simps) simp
  next
    case False
    then obtain j where k: "k = Suc j" using 1(3) by (cases k) auto
    have "j > 0" using False 1(2) k by (cases j) auto
    moreover have "n div 16 < 16 ^ j" using 1(2) k
      by (simp add: less_mult_imp_div_less mult.commute)
    ultimately have "length (toString16 (n div 16)) \<le> j" using 1(1)[OF False] by simp
    then show ?thesis using False k by (subst toString16.simps) simp
  qed
qed

lemma pad32_eq: "pad32 h = replicate (32 - length h) (of_char CHR ''0'') @ h"
proof (induction h rule: pad32.induct)
  case (1 h)
  show ?case
  proof (cases "length h < 32")
    case True
    then have "32 - length h = Suc (32 - length (of_char CHR ''0'' # h))" by simp
    then show ?thesis using 1[OF True] True
      by (subst pad32.simps) (simp add: replicate_app_Cons_same del: of_char_Char)
  next
    case False
    then show ?thesis by (subst pad32.simps) simp
  qed
qed

lemma and3_or8_range: "((n::nat) AND 3) OR 8 \<in> {8, 9, 10, 11}"
proof -
  have "n AND 3 = take_bit 2 n" by (simp add: take_bit_eq_mask mask_eq_exp_minus_1)
  moreover have "take_bit 2 n < 4" by (simp add: take_bit_eq_mod)
  ultimately have "n AND 3 < 4" by simp
  then have "n AND 3 = 0 \<or> n AND 3 = 1 \<or> n AND 3 = 2 \<or> n AND 3 = 3" by arith
  then show ?thesis by (elim disjE) simp_all
qed

lemma variant_nibble_range: "variant_nibble h \<in> {8, 9, 10, 11}"
  using and3_or8_range by (simp add: variant_nibble_def Let_def del: insert_iff)

lemma toString16_digit: "n < 16 \<Longrightarrow> toString16 n = [hexdigit n]"
  by (simp add: toString16.simps)

lemma rep_hex_match:
  "length xs = n \<Longrightarrow> list_all is_hex xs \<Longrightarrow> list_all2 (\<lambda>p c. p c) (replicate n is_hex) xs"
  by (auto simp: list_all2_conv_all_nth list_all_length)

lemma slice_length: "b \<le> length h \<Longrightarrow> length (slice a b h) = b - a"
  by (simp add: slice_def)

lemma slice_hex: "list_all is_hex h \<Longrightarrow> list_all is_hex (slice a b h)"
  unfolding slice_def list_all_iff by (meson in_set_dropD in_set_takeD)

lemma variant_digit: "\<exists>c. toString16 (variant_nibble h) = [c] \<and> is_89ab c"
proof -
  have "variant_nibble h \<in> {8, 9, 10, 11}" by (rule variant_nibble_range)
  then show ?thesis
    by (auto simp: is_89ab_def js_def hexdigit_def toString16.simps[of 8] toString16.simps[of 9]
        toString16.simps[of 10] toString16.simps[of 11])
qed


lemma format_uuid_valid:
  assumes len: "length h = 32" and hex: "list_all is_hex h"
  shows "regex_test uuid_v4_regex (format_uuid h)"
proof -
  obtain c where c: "toString16 (variant_nibble h) = [c]" "is_89ab c"
    using variant_digit by blast
  have s: "list_all2 (\<lambda>p c. p c) (replicate (b - a) is_hex) (slice a b h)" if "b \<le> 32" for a b
    using that len hex by (intro rep_hex_match) (simp_all add: slice_length slice_hex)
  have dash: "list_all2 (\<lambda>p c. p c) [is_lit CHR ''-''] (js ''-'')"
    by (simp add: is_lit_def js_def)
  have four: "list_all2 (\<lambda>p c. p c) [is_lit CHR ''4''] (js ''4'')"
    by (simp add: is_lit_def js_def)
  have var: "list_all2 (\<lambda>p c. p c) [is_89ab] (toString16 (variant_nibble h))"
    using c by simp
  show ?thesis
    unfolding regex_test_def uuid_v4_regex_def format_uuid_def join.simps append_assoc
    using s[of 8 0] s[of 12 8] s[of 15 12] s[of 19 16] s[of 31 19] dash four var
    by (intro list_all2_appendI) simp_all
qed

lemma hashHex_props:
  "length (pad32 (toString16 (nat \<bar>hash_loop 0 s\<bar>))) = 32 \<and>
   list_all is_hex (pad32 (toString16 (nat \<bar>hash_loop 0 s\<bar>)))"
proof -
  let ?n = "nat \<bar>hash_loop 0 s\<bar>"
  have "- (2^31) \<le> hash_loop 0 s \<and> hash_loop 0 s < 2^31"
    by (rule hash_loop_range) simp_all
  then have "?n < 16 ^ 8" by (simp add: abs_if) arith
  then have "length (toString16 ?n) \<le> 8" by (rule toString16_length) simp
  moreover have "list_all is_hex (toString16 ?n)" by (rule toString16_hex)
  moreover have "is_hex (of_char CHR ''0'')" by (simp add: is_hex_def)
  ultimately show ?thesis
    by (simp add: pad32_eq list_all_iff del: of_char_Char)
qed

lemma stringToUUID_Inr_valid:
  "s \<noteq> [] \<Longrightarrow> \<exists>u. stringToUUID s = Inr u \<and> isValidUUID u"
proof -
  assume ne: "s \<noteq> []"
  let ?h = "pad32 (toString16 (nat \<bar>hash_loop 0 s\<bar>))"
  have h: "length ?h = 32" "list_all is_hex ?h" using hashHex_props[of s] by simp_all
  have eq: "stringToUUID s = Inr (format_uuid ?h)"
    using ne h(1) by (simp add: stringToUUID_def Let_def)
  have "regex_test uuid_v4_regex (format_uuid ?h)" using h by (rule format_uuid_valid)
  moreover have "length (format_uuid ?h) = length uuid_v4_regex"
    using calculation by (simp add: regex_test_def list_all2_lengthD)
  moreover have "length uuid_v4_regex = 36" by (simp add: uuid_v4_regex_def)
  ultimately have "regex_test uuid_v4_regex (format_uuid ?h)" "format_uuid ?h \<noteq> []"
    by auto
  then show ?thesis using eq by (simp add: isValidUUID_def)
qed


lemma createNamespacedUUID_Inr_valid:
  "\<exists>w. createNamespacedUUID namespace v = Inr w \<and> isValidUUID w"
  unfolding createNamespacedUUID_def Let_def by (rule stringToUUID_Inr_valid) (simp add: js_def)

text \<open>
  C10. For every non-empty string, \<open>stringToUUID\<close> returns a string (it does not throw)
  that passes the strict check \<open>isValidUUID\<close>, and so does \<open>createNamespacedUUID\<close> for
  every namespace and value; \<open>ensureUUID\<close> of a non-empty string returns a string that
  \<open>ensureUUID\<close> maps to itself. The functions read nothing but their arguments, so the same
  input gives the same output on every call.
\<close>

theorem stringToUUID_valid_and_ensureUUID_idempotent:
  assumes "s \<noteq> []"
  shows "(\<exists>u. stringToUUID s = Inr u \<and> isValidUUID u) \<and>
         (\<exists>w. createNamespacedUUID namespace v = Inr w \<and> isValidUUID w) \<and>
         (\<exists>e. ensureUUID s = Inr e \<and> isValidUUID e \<and> ensureUUID e = Inr e)"
proof -
  obtain u where u: "stringToUUID s = Inr u" "isValidUUID u"
    using stringToUUID_Inr_valid[OF assms] by blast
  have "\<exists>e. ensureUUID s = Inr e \<and> isValidUUID e \<and> ensureUUID e = Inr e"
  proof (cases "isValidUUID s")
    case True
    then show ?thesis by (simp add: ensureUUID_def)
  next
    case False
    then show ?thesis using u by (simp add: ensureUUID_def)
  qed
  then show ?thesis using u createNamespacedUUID_Inr_valid by blast
qed

theorem stringToUUID_valid_and_ensureUUID_idempotent_witness:
  "js ''user_123'' \<noteq> [] \<and>
   (\<exists>u. stringToUUID (js ''user_123'') = Inr u \<and> isValidUUID u) \<and>
   (\<exists>w. createNamespacedUUID (js ''guest'') (js ''user_123'') = Inr w \<and> isValidUUID w) \<and>
   (\<exists>e. ensureUUID (js ''user_123'') = Inr e \<and> isValidUUID e \<and> ensureUUID e = Inr e)"
proof -
  have ne: "js ''user_123'' \<noteq> []" by (simp add: js_def)
  show ?thesis
    using ne stringToUUID_valid_and_ensureUUID_idempotent[OF ne, of "js ''guest''" "js ''user_123''"]
    by blast
qed

subsection \<open>Rate limiting\<close>

lemma checkRateLimit_calls_append:
  "checkRateLimit_calls config (xs @ ys) cache key =
     (let (r1, c1) = checkRateLimit_calls config xs cache key;
          (r2, c2) = checkRateLimit_calls config ys c1 key
      in (r1 @ r2, c2))"
  by (induction xs arbitrary: cache) (simp_all add: Let_def split: prod.splits)

lemma checkRateLimit_calls_within_window:
  assumes "cache key = Some e"
      and "count e + length ts \<le> maxRequestsPerMinute config"
      and "\<forall>t\<in>set ts. t \<le> resetTime e"
  shows "checkRateLimit_calls config ts cache key =
           (replicate (length ts) True, cache(key \<mapsto> e\<lparr>count := count e + length ts\<rparr>))"
  using assms
proof (induction ts arbitrary: cache e)
  case Nil
  then show ?case by (simp add: map_upd_triv)
next
  case (Cons t ts)
  let ?e1 = "e\<lparr>count := count e + 1\<rparr>"
  let ?c1 = "cache(key \<mapsto> ?e1)"
  have step: "checkRateLimit config t cache key = (True, ?c1)"
    using Cons.prems by (simp add: checkRateLimit_def Let_def)
  have "checkRateLimit_calls config ts ?c1 key =
          (replicate (length ts) True, ?c1(key \<mapsto> ?e1\<lparr>count := count ?e1 + length ts\<rparr>))"
    using Cons.prems by (intro Cons.IH) simp_all
  then have "checkRateLimit_calls config ts ?c1 key =
          (replicate (length ts) True, cache(key \<mapsto> e\<lparr>count := count e + length (t # ts)\<rparr>))"
    by simp
  with step show ?case by (simp add: fun_upd_def)
qed

text \<open>
  C4. With a limit of 30 (the default configuration) and an identifier whose window is
  not open (no entry, or an entry whose reset time is past at the first call, at time
  \<open>t1\<close>): the first call opens a window that ends at \<open>t1 + 60000\<close>; as long as the
  following calls come no later than that, calls 1 to 30 return true and call 31 returns
  false; the next call after the end of the window returns true and sets the count to 1.
\<close>

theorem checkRateLimit_thirty_per_window:
  assumes limit: "maxRequestsPerMinute config = 30"
      and fresh: "case cache key of None \<Rightarrow> True | Some e \<Rightarrow> t1 > resetTime e"
      and len: "length ts = 29"
      and inside: "\<forall>t\<in>set (ts @ [t31]). t \<le> t1 + 60000"
      and after: "t32 > t1 + 60000"
  shows "\<exists>cache31.
           checkRateLimit_calls config (t1 # ts @ [t31]) cache key
             = (replicate 30 True @ [False], cache31) \<and>
           checkRateLimit config t32 cache31 key
             = (True, cache31(key \<mapsto> \<lparr>count = 1, resetTime = t32 + 60000\<rparr>))"
proof -
  let ?e1 = "\<lparr>count = 1, resetTime = t1 + 60000\<rparr>"
  let ?c1 = "cache(key \<mapsto> ?e1)"
  let ?e30 = "?e1\<lparr>count := count ?e1 + length ts\<rparr>"
  let ?c30 = "?c1(key \<mapsto> ?e30)"
  have first: "checkRateLimit config t1 cache key = (True, ?c1)"
  proof (cases "cache key")
    case None
    then show ?thesis by (simp add: checkRateLimit_def Let_def)
  next
    case (Some e)
    then have "t1 > resetTime e" using fresh by simp
    then show ?thesis using Some by (simp add: checkRateLimit_def Let_def)
  qed
  have middle: "checkRateLimit_calls config ts ?c1 key = (replicate (length ts) True, ?c30)"
    using limit len inside by (intro checkRateLimit_calls_within_window) simp_all
  have denied: "checkRateLimit config t31 ?c30 key = (False, ?c30)"
    using limit len inside by (simp add: checkRateLimit_def Let_def)
  have again: "checkRateLimit config t32 ?c30 key
                 = (True, ?c30(key \<mapsto> \<lparr>count = 1, resetTime = t32 + 60000\<rparr>))"
    using after by (simp add: checkRateLimit_def Let_def)
  have "(30::nat) = Suc 29" by simp
  then have thirty: "replicate 30 True = True # replicate 29 True"
    by (simp only: replicate_Suc)
  have "checkRateLimit_calls config (t1 # ts @ [t31]) cache key
          = (replicate 30 True @ [False], ?c30)"
    using first middle denied len
    by (simp add: checkRateLimit_calls_append Let_def thirty)
  then show ?thesis using again by blast
qed

theorem checkRateLimit_thirty_per_window_witness:
  "\<exists>cache31.
     checkRateLimit_calls defaultSecurityConfig (0 # replicate 29 1000 @ [60000]) Map.empty (js ''upload_u'')
       = (replicate 30 True @ [False], cache31) \<and>
     checkRateLimit defaultSecurityConfig 60001 cache31 (js ''upload_u'')
       = (True, cache31(js ''upload_u'' \<mapsto> \<lparr>count = 1, resetTime = 60001 + 60000\<rparr>))"
  using checkRateLimit_thirty_per_window
          [where config = defaultSecurityConfig and cache = Map.empty and key = "js ''upload_u''"
             and ?t1.0 = 0 and ts = "replicate 29 1000" and ?t31.0 = 60000 and ?t32.0 = 60001]
  by (simp add: defaultSecurityConfig_def)

subsection \<open>Generated identifiers\<close>

lemma unat_nibble_less: "unat (w::nibble) < 16"
  using unsigned_less[of w, where 'a = nat] by simp

lemma nibble_digit: "toString16 (unat (w::nibble)) = [hexdigit (unat w)]"
  by (rule toString16_digit) (rule unat_nibble_less)

lemma nibble_digit_hex: "is_hex (hexdigit (unat (w::nibble)))"
  by (rule is_hex_hexdigit) (rule unat_nibble_less)

lemma variant_digit_89ab: "is_89ab (hexdigit (unat (((r::nibble) AND 3) OR 8)))"
proof -
  have "unat ((r AND 3) OR 8) = (unat r AND 3) OR 8"
    by (simp add: unsigned_or_eq unsigned_and_eq)
  moreover have "(unat r AND 3) OR 8 \<in> {8, 9, 10, 11}" by (rule and3_or8_range)
  ultimately show ?thesis by (auto simp: is_89ab_def js_def hexdigit_def)
qed

lemma is_89ab_hex: "is_89ab c \<Longrightarrow> is_hex c"
  by (auto simp: is_89ab_def is_hex_def js_def)

lemma uuid_v4_regex_explicit:
  "uuid_v4_regex =
     [is_hex, is_hex, is_hex, is_hex, is_hex, is_hex, is_hex, is_hex, is_lit CHR ''-'',
      is_hex, is_hex, is_hex, is_hex, is_lit CHR ''-'',
      is_lit CHR ''4'', is_hex, is_hex, is_hex, is_lit CHR ''-'',
      is_89ab, is_hex, is_hex, is_hex, is_lit CHR ''-'',
      is_hex, is_hex, is_hex, is_hex, is_hex, is_hex, is_hex, is_hex, is_hex, is_hex, is_hex, is_hex]"
  by (simp add: uuid_v4_regex_def numeral_eq_Suc)

lemma uuid_format_regex_explicit:
  "uuid_format_regex =
     [is_hex, is_hex, is_hex, is_hex, is_hex, is_hex, is_hex, is_hex, is_lit CHR ''-'',
      is_hex, is_hex, is_hex, is_hex, is_lit CHR ''-'',
      is_hex, is_hex, is_hex, is_hex, is_lit CHR ''-'',
      is_hex, is_hex, is_hex, is_hex, is_lit CHR ''-'',
      is_hex, is_hex, is_hex, is_hex, is_hex, is_hex, is_hex, is_hex, is_hex, is_hex, is_hex, is_hex]"
  by (simp add: uuid_format_regex_def numeral_eq_Suc)

lemma is_lit_4_hex: "is_lit CHR ''4'' c \<Longrightarrow> is_hex c"
  by (simp add: is_lit_def is_hex_def)

lemma v4_imp_format: "regex_test uuid_v4_regex u \<Longrightarrow> regex_test uuid_format_regex u"
  unfolding regex_test_def uuid_v4_regex_explicit uuid_format_regex_explicit
  by (auto simp: list_all2_Cons1 is_lit_4_hex is_89ab_hex)

lemma generateUUID_v4: "regex_test uuid_v4_regex (generateUUID rnd k)"
  unfolding uuid_v4_regex_explicit
  by (simp add: generateUUID_def uuid_template_def js_def Let_def nibble_digit regex_test_def
      nibble_digit_hex variant_digit_89ab is_lit_def)

lemma generateUUID_valid: "isValidUUID (generateUUID rnd k)"
proof -
  have "length (generateUUID rnd k) = length uuid_v4_regex"
    using generateUUID_v4[of rnd k] by (simp add: regex_test_def list_all2_lengthD)
  then have "generateUUID rnd k \<noteq> []" by (auto simp: uuid_v4_regex_explicit)
  then show ?thesis using generateUUID_v4 by (simp add: isValidUUID_def)
qed

lemma generateUUID_format: "isValidUUID_format (generateUUID rnd k)"
  unfolding isValidUUID_format_def by (rule v4_imp_format) (rule generateUUID_v4)

lemma generateUUID_version: "generateUUID rnd k ! 14 = of_char CHR ''4''"
  by (simp add: generateUUID_def uuid_template_def js_def Let_def nibble_digit)

subsection \<open>The submit handler\<close>

lemmas handler_defs =
  serve_def create_submission_def process_submission_def validate_request_def
  resolve_user_id_def ensure_user_exists_def insert_submission_def update_submission_def
  truthy_def or_null_def

lemmas example_defs =
  working_env_def text_request_def image_request_without_data_def empty_database_def

lemma generateUUID_zero:
  "generateUUID (\<lambda>k. 0) k = js ''00000000-0000-4000-8000-000000000000''"
  by (simp add: generateUUID_def uuid_template_def js_def Let_def toString16_digit hexdigit_def)

lemma DEFAULT_USER_ID_format: "isValidUUID_format DEFAULT_USER_ID"
  unfolding isValidUUID_format_def regex_test_def uuid_format_regex_explicit
  by (simp add: DEFAULT_USER_ID_def js_def is_hex_def is_lit_def)

lemma DEFAULT_USER_ID_not_v4: "\<not> isValidUUID DEFAULT_USER_ID"
  unfolding isValidUUID_def regex_test_def uuid_v4_regex_explicit
  by (simp add: DEFAULT_USER_ID_def js_def is_hex_def is_lit_def)

lemma DEFAULT_USER_ID_version: "DEFAULT_USER_ID ! 14 = of_char CHR ''5''"
  by (simp add: DEFAULT_USER_ID_def js_def)

lemma generateUUID_not_default: "generateUUID rnd k \<noteq> DEFAULT_USER_ID"
proof
  assume "generateUUID rnd k = DEFAULT_USER_ID"
  then have "generateUUID rnd k ! 14 = DEFAULT_USER_ID ! 14" by simp
  then show False by (simp add: generateUUID_version DEFAULT_USER_ID_version)
qed

lemma resolve_user_id_format: "isValidUUID_format (fst (resolve_user_id rnd supplied))"
  by (simp add: resolve_user_id_def DEFAULT_USER_ID_format generateUUID_format
      split: option.splits)

lemma ensure_user_exists_submissions:
  "problem_submissions (ensure_user_exists env userId db) = problem_submissions db"
  by (simp add: ensure_user_exists_def split: option.splits)

lemma update_submission_other:
  "update_submission env ident change db = (db', err) \<Longrightarrow> i \<noteq> ident \<Longrightarrow>
     problem_submissions db' i = problem_submissions db i"
  by (auto simp: update_submission_def split: option.splits)

lemma update_submission_same:
  "update_submission env ident change db = (db', err) \<Longrightarrow>
     problem_submissions db ident = Some row \<Longrightarrow>
     problem_submissions db' ident = Some (if err = None then change row else row)"
  by (auto simp: update_submission_def split: option.splits)

lemma create_submission_Inl:
  "create_submission env req db = (db1, Inl thrown) \<Longrightarrow>
     problem_submissions db1 = problem_submissions db"
  by (auto simp: create_submission_def Let_def insert_submission_def
        ensure_user_exists_submissions split: if_splits sum.splits prod.splits option.splits)

lemma create_submission_Inr:
  assumes "create_submission env req db = (db1, Inr (requestBody, ident))"
  shows "json req = Inr requestBody \<and> validate_request requestBody = Inr () \<and>
         ident = generateUUID (random env) (snd (resolve_user_id (random env) (rq_user_id requestBody))) \<and>
         problem_submissions db ident = None \<and>
         (\<exists>row. problem_submissions db1 = (problem_submissions db)(ident \<mapsto> row) \<and>
                status row = Processing \<and>
                user_id row = fst (resolve_user_id (random env) (rq_user_id requestBody)))"
  using assms
  by (auto simp: create_submission_def Let_def insert_submission_def
        ensure_user_exists_submissions split: if_splits sum.splits prod.splits option.splits)

lemma process_submission_other:
  "process_submission env requestBody ident db1 = (db2, outcome) \<Longrightarrow> i \<noteq> ident \<Longrightarrow>
     problem_submissions db2 i = problem_submissions db1 i"
  by (auto simp: process_submission_def Let_def
        split: if_splits gemini_outcome.splits prod.splits option.splits
        dest: update_submission_other)

lemma process_submission_same:
  assumes "process_submission env requestBody ident db1 = (db2, outcome)"
      and "problem_submissions db1 ident = Some row"
  shows "\<exists>row'. problem_submissions db2 ident = Some row' \<and> user_id row' = user_id row \<and>
           (status row' = status row \<or> status row' = Completed \<or> status row' = StatusError)"
  using assms
  by (auto simp: process_submission_def Let_def
        split: if_splits gemini_outcome.splits prod.splits option.splits
        dest!: update_submission_same)

lemma serve_store:
  assumes "http_method req \<noteq> js ''OPTIONS''" and "create_submission env req db = (db1, r)"
  shows "snd (serve env req db) =
           (case r of Inl thrown \<Rightarrow> db1
            | Inr (requestBody, ident) \<Rightarrow> fst (process_submission env requestBody ident db1))"
  using assms
  by (auto simp: serve_def Let_def split: sum.splits prod.splits)

text \<open>
  C1 (the code at the failing input). A valid request; the record is inserted; then
  \<open>fetch\<close> throws. The \<open>catch\<close> answers with status 500 and makes no update: the record
  stays at \<open>processing\<close>, whereas the paths for a missing key and for a response that is
  not \<open>ok\<close> set it to \<open>error\<close>.
\<close>

theorem fetch_throws_leaves_record_processing:
  "serve (working_env (FetchThrows (Thrown (js ''TypeError'') (js ''network error''))))
       (text_request None) empty_database
     = (JsonResponse 500
          \<lparr>success = False, rb_error = Some (js ''network error''),
           rb_details = Some (js ''TypeError: network error''),
           problemId = None, rb_status = None, rb_solution = None\<rparr>,
        empty_database
          \<lparr>users := [DEFAULT_USER_ID \<mapsto>
              \<lparr>email = js ''guest@example.com'', first_name = js ''Guest'',
               last_name = js ''User'', is_guest = True\<rparr>],
           problem_submissions := [js ''00000000-0000-4000-8000-000000000000'' \<mapsto>
              \<lparr>user_id = DEFAULT_USER_ID, title = js ''T'', input_type = js ''text'',
               text_content = Some (js ''2+2?''), image_url = None, voice_url = None,
               status = Processing, solution = None, error_message = None\<rparr>]\<rparr>)"
  by (simp add: handler_defs example_defs generateUUID_zero Let_def js_def)

text \<open>
  C2. The handler is the only code that writes \<open>problem_submissions\<close> (the hooks only
  select from it). A run of the handler leaves every record that exists before it as it
  is: after the insert and at the end of the run. The record it creates has a new id and is created at
  \<open>processing\<close>; the rest of the run moves every record forward in the order of the
  status values, and changes no record but the new one, which ends at \<open>processing\<close>,
  \<open>completed\<close> or \<open>error\<close>.
\<close>

theorem status_moves_only_forward:
  assumes "http_method req \<noteq> js ''OPTIONS''"
      and "create_submission env req db = (db1, r)"
  shows "(\<forall>i row. problem_submissions db i = Some row \<longrightarrow>
            problem_submissions db1 i = Some row \<and>
            problem_submissions (snd (serve env req db)) i = Some row) \<and>
         (\<forall>requestBody ident db2 outcome.
            r = Inr (requestBody, ident) \<longrightarrow>
            process_submission env requestBody ident db1 = (db2, outcome) \<longrightarrow>
              snd (serve env req db) = db2 \<and>
              problem_submissions db ident = None \<and>
              (\<exists>row1 row2.
                 problem_submissions db1 ident = Some row1 \<and> status row1 = Processing \<and>
                 problem_submissions db2 ident = Some row2 \<and>
                 status_forward (status row1) (status row2)) \<and>
              (\<forall>i row. i \<noteq> ident \<longrightarrow> problem_submissions db1 i = Some row \<longrightarrow>
                 problem_submissions db2 i = Some row))"
proof -
  have old_rows: "problem_submissions db1 i = Some row \<and>
        problem_submissions (snd (serve env req db)) i = Some row"
    if old: "problem_submissions db i = Some row" for i row
  proof (cases r)
    case (Inl thrown)
    then have "problem_submissions db1 = problem_submissions db"
      using assms(2) create_submission_Inl by blast
    then show ?thesis using old Inl serve_store[OF assms] by simp
  next
    case (Inr p)
    obtain requestBody ident where p: "p = (requestBody, ident)" by (cases p)
    from create_submission_Inr[OF assms(2)[unfolded Inr p]]
    obtain new where new: "problem_submissions db ident = None"
        "problem_submissions db1 = (problem_submissions db)(ident \<mapsto> new)"
      by blast
    then have ne: "i \<noteq> ident" and one: "problem_submissions db1 i = Some row"
      using old by auto
    obtain db2 outcome where two: "process_submission env requestBody ident db1 = (db2, outcome)"
      by (cases "process_submission env requestBody ident db1")
    have "problem_submissions db2 i = Some row"
      using process_submission_other[OF two ne] one by simp
    then show ?thesis using one two Inr p serve_store[OF assms] by simp
  qed
  have new_row: "snd (serve env req db) = db2 \<and>
      problem_submissions db ident = None \<and>
      (\<exists>row1 row2.
         problem_submissions db1 ident = Some row1 \<and> status row1 = Processing \<and>
         problem_submissions db2 ident = Some row2 \<and>
         status_forward (status row1) (status row2)) \<and>
      (\<forall>i row. i \<noteq> ident \<longrightarrow> problem_submissions db1 i = Some row \<longrightarrow>
         problem_submissions db2 i = Some row)"
    if r: "r = Inr (requestBody, ident)"
      and two: "process_submission env requestBody ident db1 = (db2, outcome)"
    for requestBody ident db2 outcome
  proof -
  have a: "snd (serve env req db) = db2"
    using serve_store[OF assms] r two by simp
  from create_submission_Inr[OF assms(2)[unfolded r]]
  obtain row1 where new: "problem_submissions db ident = None"
      "problem_submissions db1 = (problem_submissions db)(ident \<mapsto> row1)"
      "status row1 = Processing"
    by blast
  have b: "problem_submissions db ident = None" by (rule new(1))
  have one: "problem_submissions db1 ident = Some row1" using new(2) by simp
  from process_submission_same[OF two one]
  obtain row2 where "problem_submissions db2 ident = Some row2"
      "status row2 = status row1 \<or> status row2 = Completed \<or> status row2 = StatusError"
    by blast
  then have c: "\<exists>row1 row2.
               problem_submissions db1 ident = Some row1 \<and> status row1 = Processing \<and>
               problem_submissions db2 ident = Some row2 \<and>
               status_forward (status row1) (status row2)"
    using one new(3) by (auto simp: status_forward_def)
  have d: "problem_submissions db2 i = Some row"
    if "i \<noteq> ident" "problem_submissions db1 i = Some row" for i row
    using process_submission_other[OF two that(1)] that(2) by simp
  show ?thesis using a b c d by blast
  qed
  show ?thesis using old_rows new_row by blast
qed

theorem status_moves_only_forward_witness:
  "http_method (text_request None) \<noteq> js ''OPTIONS'' \<and>
   problem_submissions database_with_completed (js ''aaaaaaaa-aaaa-4aaa-8aaa-aaaaaaaaaaaa'')
     = Some completed_row \<and>
   problem_submissions
     (snd (serve (working_env (ResponseOk (Some (js ''4'')))) (text_request None) database_with_completed))
     (js ''aaaaaaaa-aaaa-4aaa-8aaa-aaaaaaaaaaaa'') = Some completed_row \<and>
   (\<exists>row1 row2.
      problem_submissions
        (fst (create_submission (working_env (ResponseOk (Some (js ''4'')))) (text_request None)
                database_with_completed))
        (js ''00000000-0000-4000-8000-000000000000'') = Some row1 \<and>
      status row1 = Processing \<and>
      problem_submissions
        (snd (serve (working_env (ResponseOk (Some (js ''4'')))) (text_request None) database_with_completed))
        (js ''00000000-0000-4000-8000-000000000000'') = Some row2 \<and>
      status_forward (status row1) (status row2))"
proof -
  let ?env = "working_env (ResponseOk (Some (js ''4'')))"
  let ?req = "text_request None"
  let ?db = "database_with_completed"
  let ?pid = "js ''00000000-0000-4000-8000-000000000000''"
  obtain db1 r where c: "create_submission ?env ?req ?db = (db1, r)"
    by (cases "create_submission ?env ?req ?db")
  have m: "http_method ?req \<noteq> js ''OPTIONS''"
    by (simp add: text_request_def js_def)
  have old: "problem_submissions ?db (js ''aaaaaaaa-aaaa-4aaa-8aaa-aaaaaaaaaaaa'') = Some completed_row"
    by (simp add: database_with_completed_def empty_database_def)
  obtain requestBody where r: "r = Inr (requestBody, ?pid)"
    using c
    by (auto simp: handler_defs example_defs database_with_completed_def generateUUID_zero
          Let_def js_def)
  obtain db2 outcome where p: "process_submission ?env requestBody ?pid db1 = (db2, outcome)"
    by (cases "process_submission ?env requestBody ?pid db1")
  show ?thesis
    using status_moves_only_forward[OF m c] old r p c m by (simp del: fun_upd_apply) blast
qed

text \<open>
  C8. A request without \<open>input_type\<close> or \<open>title\<close>, or without the content its
  \<open>input_type\<close> requires, is answered with status 500 and \<open>success: false\<close>, and the store
  is left exactly as it was: no record and no user is written. (A request whose method
  is \<open>OPTIONS\<close> is the preflight and gets the plain answer.)
\<close>

theorem invalid_request_rejected_without_record:
  assumes "http_method req \<noteq> js ''OPTIONS''"
      and "json req = Inr requestBody"
      and "\<not> truthy (rq_input_type requestBody) \<or> \<not> truthy (rq_title requestBody) \<or>
           (rq_input_type requestBody = Some (js ''text'') \<and> \<not> truthy (rq_text_content requestBody)) \<or>
           (rq_input_type requestBody = Some (js ''image'') \<and> \<not> truthy (rq_image_data requestBody)) \<or>
           (rq_input_type requestBody = Some (js ''voice'') \<and> \<not> truthy (rq_voice_url requestBody))"
  shows "\<exists>message.
           serve env req db =
             (JsonResponse 500
                \<lparr>success = False, rb_error = Some message,
                 rb_details = Some (js ''Error: '' @ message),
                 problemId = None, rb_status = None, rb_solution = None\<rparr>, db)"
proof -
  have "\<exists>message. validate_request requestBody = Inl (Error message)"
    using assms(3) by (auto simp: validate_request_def)
  then obtain message where v: "validate_request requestBody = Inl (Error message)"
    by blast
  have "\<exists>message'. create_submission env req db = (db, Inl (Error message'))"
    using assms(2) v by (simp add: create_submission_def)
  then show ?thesis using assms(1) by (auto simp: serve_def)
qed

theorem invalid_request_rejected_without_record_witness:
  "http_method image_request_without_data \<noteq> js ''OPTIONS'' \<and>
   rq_input_type (projr (json image_request_without_data)) = Some (js ''image'') \<and>
   \<not> truthy (rq_image_data (projr (json image_request_without_data))) \<and>
   (\<exists>message.
      serve (working_env (ResponseOk (Some (js ''4'')))) image_request_without_data empty_database =
        (JsonResponse 500
           \<lparr>success = False, rb_error = Some message,
            rb_details = Some (js ''Error: '' @ message),
            problemId = None, rb_status = None, rb_solution = None\<rparr>, empty_database))"
proof -
  have m: "http_method image_request_without_data \<noteq> js ''OPTIONS''"
    by (simp add: image_request_without_data_def js_def)
  have j: "json image_request_without_data = Inr (projr (json image_request_without_data))"
    by (simp add: image_request_without_data_def)
  have v: "rq_input_type (projr (json image_request_without_data)) = Some (js ''image'')"
          "\<not> truthy (rq_image_data (projr (json image_request_without_data)))"
    by (simp_all add: image_request_without_data_def truthy_def)
  show ?thesis
    using invalid_request_rejected_without_record[OF m j, of "working_env (ResponseOk (Some (js ''4'')))" empty_database]
      m v by blast
qed

lemma persisted_owner:
  assumes "http_method req \<noteq> js ''OPTIONS''"
      and "create_submission env req db = (db1, Inr (requestBody, ident))"
  shows "\<exists>row1 row. problem_submissions db1 ident = Some row1 \<and> status row1 = Processing \<and>
           user_id row1 = fst (resolve_user_id (random env) (rq_user_id requestBody)) \<and>
           problem_submissions (snd (serve env req db)) ident = Some row \<and>
           user_id row = user_id row1"
proof -
  from create_submission_Inr[OF assms(2)]
  obtain row1 where one: "problem_submissions db1 ident = Some row1" "status row1 = Processing"
      "user_id row1 = fst (resolve_user_id (random env) (rq_user_id requestBody))"
    by auto
  obtain db2 outcome where two: "process_submission env requestBody ident db1 = (db2, outcome)"
    by (cases "process_submission env requestBody ident db1")
  from process_submission_same[OF two one(1)]
  obtain row where "problem_submissions db2 ident = Some row" "user_id row = user_id row1"
    by blast
  moreover have "snd (serve env req db) = db2"
    using serve_store[OF assms] two by simp
  ultimately show ?thesis using one by blast
qed

text \<open>
  C3 (counterexample). A request without \<open>user_id\<close>: the record is persisted with the guest
  identifier as owner, and the guest identifier does not pass the strict UUIDv4 check (its
  version digit is 5 and its variant digit is 1).
\<close>

theorem guest_owner_is_not_uuid_v4:
  "map_option user_id
     (problem_submissions
        (snd (serve (working_env (ResponseOk (Some (js ''4'')))) (text_request None) empty_database))
        (js ''00000000-0000-4000-8000-000000000000''))
     = Some DEFAULT_USER_ID \<and>
   \<not> isValidUUID DEFAULT_USER_ID"
  by (simp add: handler_defs example_defs generateUUID_zero Let_def js_def DEFAULT_USER_ID_not_v4)

text \<open>
  C3 (amended). Every record the handler persists has an owner id, and the owner id passes
  the handler's own check of the UUID shape (8-4-4-4-12 hexadecimal digits, any version
  and variant): a supplied non-empty id that passes this check is kept, a supplied
  non-empty id that fails it is replaced by a generated id, and with no id (or an empty
  one) the guest identifier is used.
\<close>

theorem persisted_owner_passes_format_check:
  assumes "http_method req \<noteq> js ''OPTIONS''"
      and "create_submission env req db = (db1, Inr (requestBody, ident))"
  shows "\<exists>row. problem_submissions (snd (serve env req db)) ident = Some row \<and>
           isValidUUID_format (user_id row) \<and>
           user_id row =
             (case rq_user_id requestBody of
                None \<Rightarrow> DEFAULT_USER_ID
              | Some supplied \<Rightarrow>
                  if supplied = [] then DEFAULT_USER_ID
                  else if isValidUUID_format supplied then supplied
                  else generateUUID (random env) 0)"
proof -
  from persisted_owner[OF assms]
  obtain row where row: "problem_submissions (snd (serve env req db)) ident = Some row"
      "user_id row = fst (resolve_user_id (random env) (rq_user_id requestBody))"
    by auto
  have "isValidUUID_format (user_id row)"
    using row(2) resolve_user_id_format by simp
  moreover have "user_id row =
             (case rq_user_id requestBody of
                None \<Rightarrow> DEFAULT_USER_ID
              | Some supplied \<Rightarrow>
                  if supplied = [] then DEFAULT_USER_ID
                  else if isValidUUID_format supplied then supplied
                  else generateUUID (random env) 0)"
    using row(2) by (simp add: resolve_user_id_def split: option.splits)
  ultimately show ?thesis using row(1) by blast
qed

theorem persisted_owner_passes_format_check_witness:
  "http_method (text_request None) \<noteq> js ''OPTIONS'' \<and>
   snd (create_submission (working_env (ResponseOk (Some (js ''4'')))) (text_request None) empty_database)
     = Inr (projr (json (text_request None)), js ''00000000-0000-4000-8000-000000000000'') \<and>
   (\<exists>row. problem_submissions
             (snd (serve (working_env (ResponseOk (Some (js ''4'')))) (text_request None) empty_database))
             (js ''00000000-0000-4000-8000-000000000000'') = Some row \<and>
          isValidUUID_format (user_id row) \<and>
          user_id row = DEFAULT_USER_ID)"
proof -
  let ?env = "working_env (ResponseOk (Some (js ''4'')))"
  let ?req = "text_request None"
  let ?pid = "js ''00000000-0000-4000-8000-000000000000''"
  have m: "http_method ?req \<noteq> js ''OPTIONS''"
    by (simp add: text_request_def js_def)
  have s: "snd (create_submission ?env ?req empty_database) = Inr (projr (json ?req), ?pid)"
    by (simp add: handler_defs example_defs generateUUID_zero Let_def js_def)
  then have c: "create_submission ?env ?req empty_database
                  = (fst (create_submission ?env ?req empty_database), Inr (projr (json ?req), ?pid))"
    by (metis prod.collapse)
  have n: "rq_user_id (projr (json ?req)) = None"
    by (simp add: text_request_def)
  show ?thesis
    using persisted_owner_passes_format_check[OF m c] m s n by simp
qed

text \<open>
  C5 (counterexample). A supplied owner id of the UUID shape that is no UUIDv4 (version
  digit 1) fails the strict check, yet the handler keeps it as the owner; and a supplied
  empty id, which fails every check, is replaced by the guest identifier. In neither case
  is the owner a freshly generated id.
\<close>

theorem invalid_owner_kept_or_guest:
  "\<not> isValidUUID (js ''12345678-1234-1234-1234-123456789012'') \<and>
   map_option user_id
     (problem_submissions
        (snd (serve (working_env (ResponseOk (Some (js ''4''))))
                (text_request (Some (js ''12345678-1234-1234-1234-123456789012''))) empty_database))
        (js ''00000000-0000-4000-8000-000000000000''))
     = Some (js ''12345678-1234-1234-1234-123456789012'') \<and>
   \<not> isValidUUID (js '''') \<and> \<not> isValidUUID_format (js '''') \<and>
   map_option user_id
     (problem_submissions
        (snd (serve (working_env (ResponseOk (Some (js ''4'')))) (text_request (Some (js ''''))) empty_database))
        (js ''00000000-0000-4000-8000-000000000000''))
     = Some DEFAULT_USER_ID"
proof -
  have a: "\<not> isValidUUID (js ''12345678-1234-1234-1234-123456789012'')"
    unfolding isValidUUID_def regex_test_def uuid_v4_regex_explicit
    by (simp add: js_def is_hex_def is_lit_def)
  have f: "isValidUUID_format (js ''12345678-1234-1234-1234-123456789012'')"
    unfolding isValidUUID_format_def regex_test_def uuid_format_regex_explicit
    by (simp add: js_def is_hex_def is_lit_def)
  have b: "map_option user_id
     (problem_submissions
        (snd (serve (working_env (ResponseOk (Some (js ''4''))))
                (text_request (Some (js ''12345678-1234-1234-1234-123456789012''))) empty_database))
        (js ''00000000-0000-4000-8000-000000000000''))
     = Some (js ''12345678-1234-1234-1234-123456789012'')"
    using f by (simp add: handler_defs example_defs generateUUID_zero Let_def) (simp add: js_def)
  have c: "\<not> isValidUUID (js '''')" "\<not> isValidUUID_format (js '''')"
    by (simp_all add: isValidUUID_def isValidUUID_format_def regex_test_def
          uuid_format_regex_explicit js_def)
  have d: "map_option user_id
     (problem_submissions
        (snd (serve (working_env (ResponseOk (Some (js ''4'')))) (text_request (Some (js ''''))) empty_database))
        (js ''00000000-0000-4000-8000-000000000000''))
     = Some DEFAULT_USER_ID"
    by (simp add: handler_defs example_defs generateUUID_zero Let_def js_def)
  show ?thesis using a b c d by blast
qed

text \<open>
  C5 (amended). When the supplied owner id is not empty and fails the handler's check of
  the UUID shape, the request is not rejected for it: with the environment set, a valid
  body, and an insert that succeeds, the record is created at \<open>processing\<close>, and its owner,
  also at the end of the run, is a generated id, which differs from the supplied id and
  from the guest identifier and passes both the check of the shape and the strict
  UUIDv4 check.
\<close>

theorem invalid_owner_replaced_by_generated_id:
  assumes "http_method req \<noteq> js ''OPTIONS''"
      and "truthy (SUPABASE_URL env)" and "truthy (SUPABASE_SERVICE_ROLE_KEY env)"
      and "json req = Inr requestBody" and "validate_request requestBody = Inr ()"
      and "rq_user_id requestBody = Some supplied" and "supplied \<noteq> []"
      and "\<not> isValidUUID_format supplied"
      and "insert_error env = None"
      and "problem_submissions db (generateUUID (random env) uuid_draws) = None"
  shows "\<exists>db1 row1 row.
           create_submission env req db
             = (db1, Inr (requestBody, generateUUID (random env) uuid_draws)) \<and>
           problem_submissions db1 (generateUUID (random env) uuid_draws) = Some row1 \<and>
           status row1 = Processing \<and> user_id row1 = generateUUID (random env) 0 \<and>
           problem_submissions (snd (serve env req db)) (generateUUID (random env) uuid_draws)
             = Some row \<and>
           user_id row = generateUUID (random env) 0 \<and>
           user_id row \<noteq> supplied \<and> user_id row \<noteq> DEFAULT_USER_ID \<and>
           isValidUUID_format (user_id row) \<and> isValidUUID (user_id row)"
proof -
  let ?pid = "generateUUID (random env) uuid_draws"
  have res: "resolve_user_id (random env) (rq_user_id requestBody)
               = (generateUUID (random env) 0, uuid_draws)"
    using assms(6,7,8) by (simp add: resolve_user_id_def)
  have "\<exists>db1. create_submission env req db = (db1, Inr (requestBody, ?pid))"
    using assms(2,3,4,5,9,10) res
    by (simp add: create_submission_def Let_def insert_submission_def
          ensure_user_exists_submissions)
  then obtain db1 where c: "create_submission env req db = (db1, Inr (requestBody, ?pid))"
    by blast
  from persisted_owner[OF assms(1) c] res
  obtain row1 row where rows: "problem_submissions db1 ?pid = Some row1" "status row1 = Processing"
      "user_id row1 = generateUUID (random env) 0"
      "problem_submissions (snd (serve env req db)) ?pid = Some row"
      "user_id row = generateUUID (random env) 0"
    by auto
  have "generateUUID (random env) 0 \<noteq> supplied"
    using assms(8) generateUUID_format by metis
  then show ?thesis
    using c rows generateUUID_not_default generateUUID_format generateUUID_valid by metis
qed

theorem invalid_owner_replaced_by_generated_id_witness:
  "rq_user_id (projr (json (text_request (Some (js ''user_123''))))) = Some (js ''user_123'') \<and>
   js ''user_123'' \<noteq> [] \<and> \<not> isValidUUID_format (js ''user_123'') \<and>
   validate_request (projr (json (text_request (Some (js ''user_123''))))) = Inr () \<and>
   (\<exists>row. problem_submissions
             (snd (serve (working_env (ResponseOk (Some (js ''4''))))
                     (text_request (Some (js ''user_123''))) empty_database))
             (js ''00000000-0000-4000-8000-000000000000'') = Some row \<and>
          user_id row = js ''00000000-0000-4000-8000-000000000000'' \<and>
          user_id row \<noteq> js ''user_123'' \<and> user_id row \<noteq> DEFAULT_USER_ID \<and>
          isValidUUID_format (user_id row) \<and> isValidUUID (user_id row))"
proof -
  let ?env = "working_env (ResponseOk (Some (js ''4'')))"
  let ?req = "text_request (Some (js ''user_123''))"
  let ?body = "projr (json ?req)"
  have m: "http_method ?req \<noteq> js ''OPTIONS''"
    by (simp add: text_request_def js_def)
  have e: "truthy (SUPABASE_URL ?env)" "truthy (SUPABASE_SERVICE_ROLE_KEY ?env)"
          "insert_error ?env = None"
    by (simp_all add: working_env_def truthy_def js_def)
  have j: "json ?req = Inr ?body" by (simp add: text_request_def)
  have v: "validate_request ?body = Inr ()"
    by (simp add: validate_request_def text_request_def truthy_def js_def)
  have u: "rq_user_id ?body = Some (js ''user_123'')" "js ''user_123'' \<noteq> []"
    by (simp_all add: text_request_def js_def)
  have n: "\<not> isValidUUID_format (js ''user_123'')"
    unfolding isValidUUID_format_def regex_test_def uuid_format_regex_explicit
    by (simp add: js_def)
  have g: "generateUUID (random ?env) k = js ''00000000-0000-4000-8000-000000000000''" for k
    by (simp add: working_env_def generateUUID_zero)
  have f: "problem_submissions empty_database (generateUUID (random ?env) uuid_draws) = None"
    by (simp add: empty_database_def)
  show ?thesis
    using invalid_owner_replaced_by_generated_id[OF m e(1,2) j v u n e(3) f] u n v
    by (auto simp: g)
qed

subsection \<open>Polling\<close>

lemma generated_zero_format: "isValidUUID_format (js ''00000000-0000-4000-8000-000000000000'')"
  unfolding isValidUUID_format_def regex_test_def uuid_format_regex_explicit
  by (simp add: js_def is_hex_def is_lit_def)

lemma poll_store: "tick_db (poll auth fault ident db attempts st) = db"
  by (simp add: poll_def Let_def split: prod.splits option.splits)

lemma poll_loop_store: "pt_db (poll_loop auth faults ident attempts tr) = pt_db tr"
proof (induction auth faults ident attempts tr rule: poll_loop.induct)
  case (1 auth faults ident attempts tr)
  show ?case
  proof (cases "tick_timer (poll auth (faults attempts) ident (pt_db tr) attempts (pt_state tr))")
    case None
    then show ?thesis
      by (subst poll_loop.simps) (simp add: Let_def poll_store)
  next
    case (Some ms)
    then show ?thesis
      using "1.IH"[OF refl refl Some]
      by (subst poll_loop.simps) (simp add: Let_def poll_store)
  qed
qed

lemma poll_failed_query:
  assumes "fault = ReturnsError \<or> fault = Throws \<or> query_submission auth ident db = (None, True)"
  shows "poll auth fault ident db attempts st =
           \<lparr>tick_state = st\<lparr>error_state := Some (js ''Failed to check problem status'')\<rparr>,
            tick_attempts = attempts, tick_timer = None,
            tick_queried = isValidUUID_format ident, tick_db = db\<rparr>"
  using assms by (auto simp: poll_def Let_def)

lemma poll_not_terminal:
  assumes "isValidUUID_format ident"
      and "query_submission auth ident db = (Some row, False)"
      and "status row \<noteq> Completed" and "status row \<noteq> StatusError"
  shows "poll auth NoFault ident db attempts st =
           (let st1 = st\<lparr>result := Some \<lparr>pr_id = ident, pr_status = status row,
                                            pr_solution = or_null (solution row),
                                            pr_explanation = or_null (solution row),
                                            pr_errorMessage = or_null (error_message row)\<rparr>\<rparr>
            in if attempts + 1 < maxAttempts then
                 \<lparr>tick_state = st1, tick_attempts = attempts + 1, tick_timer = Some 2000,
                  tick_queried = True, tick_db = db\<rparr>
               else
                 \<lparr>tick_state = st1\<lparr>error_state := Some (js ''Problem processing timed out'')\<rparr>,
                  tick_attempts = attempts + 1, tick_timer = None,
                  tick_queried = True, tick_db = db\<rparr>)"
  using assms by (simp add: poll_def Let_def)

lemma poll_loop_not_terminal:
  "isValidUUID_format ident \<Longrightarrow>
   query_submission auth ident (pt_db tr) = (Some row, False) \<Longrightarrow>
   status row \<noteq> Completed \<Longrightarrow> status row \<noteq> StatusError \<Longrightarrow>
   \<forall>n. faults n = NoFault \<Longrightarrow>
   attempts < maxAttempts \<Longrightarrow>
   poll_loop auth faults ident attempts tr =
     \<lparr>pt_state = (pt_state tr)
         \<lparr>result := Some \<lparr>pr_id = ident, pr_status = status row,
                            pr_solution = or_null (solution row),
                            pr_explanation = or_null (solution row),
                            pr_errorMessage = or_null (error_message row)\<rparr>,
          error_state := Some (js ''Problem processing timed out'')\<rparr>,
      pt_queries = pt_queries tr + (maxAttempts - attempts),
      pt_timers = pt_timers tr @ replicate (maxAttempts - 1 - attempts) 2000,
      pt_db = pt_db tr\<rparr>"
proof (induction auth faults ident attempts tr rule: poll_loop.induct)
  case (1 auth faults ident attempts tr)
  have nf: "faults attempts = NoFault" using "1.prems"(5) by simp
  note step = poll_not_terminal[OF "1.prems"(1,2,3,4), of attempts "pt_state tr"]
  show ?case
  proof (cases "attempts + 1 < maxAttempts")
    case False
    then have "maxAttempts - attempts = 1" using "1.prems"(6) by arith
    then show ?thesis
      using False nf step
      by (subst poll_loop.simps) (simp add: Let_def)
  next
    case True
    let ?t = "poll auth (faults attempts) ident (pt_db tr) attempts (pt_state tr)"
    have timer: "tick_timer ?t = Some 2000" and att: "tick_attempts ?t = attempts + 1"
      and store: "tick_db ?t = pt_db tr"
      using True nf step by (simp_all add: Let_def)
    have more: "maxAttempts - 1 - attempts = Suc (maxAttempts - 1 - (attempts + 1))"
               "maxAttempts - attempts = Suc (maxAttempts - (attempts + 1))"
      using True by arith+
    let ?tr1 = "\<lparr>pt_state = tick_state ?t,
                 pt_queries = pt_queries tr + (if tick_queried ?t then 1 else 0),
                 pt_timers = pt_timers tr @ (case tick_timer ?t of None \<Rightarrow> [] | Some ms \<Rightarrow> [ms]),
                 pt_db = tick_db ?t\<rparr>"
    have q: "query_submission auth ident (pt_db ?tr1) = (Some row, False)"
      using "1.prems"(2) store by simp
    have a: "tick_attempts ?t < maxAttempts" using att True by simp
    note ih = "1.IH"[OF refl refl timer "1.prems"(1) q "1.prems"(3,4,5) a]
    have unfold: "poll_loop auth faults ident attempts tr
                    = poll_loop auth faults ident (tick_attempts ?t) ?tr1"
      using timer by (subst poll_loop.simps) (simp add: Let_def)
    have st: "tick_state ?t = (pt_state tr)
         \<lparr>result := Some \<lparr>pr_id = ident, pr_status = status row,
                            pr_solution = or_null (solution row),
                            pr_explanation = or_null (solution row),
                            pr_errorMessage = or_null (error_message row)\<rparr>\<rparr>"
      and qd: "tick_queried ?t"
      using True nf step by (simp_all add: Let_def)
    have "maxAttempts - Suc attempts = Suc (maxAttempts - Suc (Suc attempts))"
      using True by arith
    then have rep: "replicate (maxAttempts - Suc attempts) (2000::nat)
                      = 2000 # replicate (maxAttempts - Suc (Suc attempts)) 2000"
      by (simp only: replicate_Suc)
    show ?thesis
      unfolding unfold ih
      by (simp add: st qd att timer store more rep del: replicate.simps)
  qed
qed

lemma query_submission_row:
  "query_submission auth ident db = (Some row, err) \<Longrightarrow> problem_submissions db ident = Some row"
  by (auto simp: query_submission_def Let_def split: option.splits if_splits)

lemma query_guest:
  "query_submission guest_auth (js ''00000000-0000-4000-8000-000000000000'') database_with_processing
     = (Some processing_row, False)"
  by (simp add: query_submission_def guest_auth_def database_with_processing_def empty_database_def)

text \<open>
  C6 (counterexample). The record is at \<open>processing\<close> and the first query returns an error:
  the hook reports the failure of the status check, and no timer is set after the first
  one, although only one of the 60 attempts was made and no terminal status was seen.
\<close>

theorem query_error_ends_polling:
  "pt_timers (pollForCompletion guest_auth (\<lambda>n. ReturnsError)
                (js ''00000000-0000-4000-8000-000000000000'') initial_state database_with_processing)
     = [1000] \<and>
   pt_queries (pollForCompletion guest_auth (\<lambda>n. ReturnsError)
                (js ''00000000-0000-4000-8000-000000000000'') initial_state database_with_processing)
     = 1 \<and>
   error_state (pt_state (pollForCompletion guest_auth (\<lambda>n. ReturnsError)
                (js ''00000000-0000-4000-8000-000000000000'') initial_state database_with_processing))
     = Some (js ''Failed to check problem status'') \<and>
   map_option status (problem_submissions database_with_processing
                (js ''00000000-0000-4000-8000-000000000000'')) = Some Processing"
  by (simp add: pollForCompletion_def poll_loop.simps[of _ "\<lambda>n. ReturnsError"] Let_def
        poll_failed_query generated_zero_format initial_state_def
        database_with_processing_def empty_database_def processing_row_def)

text \<open>
  C6 (amended). When the query of a run of \<open>poll\<close> fails (it returns an error, also for
  a record that is not found, or it throws), the hook reports ``Failed to check problem
  status'', which is another message than the ones for a failed processing and for the
  timeout, and leaves the result as it was; that run sets no timer, so the polling ends
  with it.
\<close>

theorem failed_status_check_reported_and_polling_stops:
  assumes "faults attempts = ReturnsError \<or> faults attempts = Throws \<or>
           query_submission auth ident (pt_db tr) = (None, True)"
  shows "tick_timer (poll auth (faults attempts) ident (pt_db tr) attempts (pt_state tr)) = None \<and>
         pt_timers (poll_loop auth faults ident attempts tr) = pt_timers tr \<and>
         error_state (pt_state (poll_loop auth faults ident attempts tr))
           = Some (js ''Failed to check problem status'') \<and>
         result (pt_state (poll_loop auth faults ident attempts tr)) = result (pt_state tr) \<and>
         js ''Failed to check problem status'' \<noteq> js ''Problem processing failed'' \<and>
         js ''Failed to check problem status'' \<noteq> js ''Problem processing timed out''"
proof -
  note p = poll_failed_query[OF assms, of attempts "pt_state tr"]
  have "poll_loop auth faults ident attempts tr =
          \<lparr>pt_state = (pt_state tr)\<lparr>error_state := Some (js ''Failed to check problem status'')\<rparr>,
           pt_queries = pt_queries tr + (if isValidUUID_format ident then 1 else 0),
           pt_timers = pt_timers tr, pt_db = pt_db tr\<rparr>"
    by (subst poll_loop.simps) (simp add: p Let_def)
  then show ?thesis by (simp add: p js_def)
qed

theorem failed_status_check_reported_and_polling_stops_witness:
  "pt_timers (poll_loop guest_auth (\<lambda>n. Throws) (js ''00000000-0000-4000-8000-000000000000'') 0
       \<lparr>pt_state = initial_state, pt_queries = 0, pt_timers = [1000], pt_db = database_with_processing\<rparr>)
     = [1000] \<and>
   error_state (pt_state (poll_loop guest_auth (\<lambda>n. Throws) (js ''00000000-0000-4000-8000-000000000000'') 0
       \<lparr>pt_state = initial_state, pt_queries = 0, pt_timers = [1000], pt_db = database_with_processing\<rparr>))
     = Some (js ''Failed to check problem status'')"
  using failed_status_check_reported_and_polling_stops
          [of "\<lambda>n. Throws" 0 guest_auth "js ''00000000-0000-4000-8000-000000000000''"
              "\<lparr>pt_state = initial_state, pt_queries = 0, pt_timers = [1000],
                pt_db = database_with_processing\<rparr>"]
  by simp

text \<open>
  C7. When every query of the polling finds the record and the record is at
  \<open>processing\<close>, the hook sends 60 queries: the first timer is set to 1000 ms and each of
  the 59 following ones to 2000 ms; after the 60th query it reports the timeout. The
  polling only reads (\<open>poll_loop_store\<close> holds for every run of it): the store is the
  same afterwards, with the record at \<open>processing\<close>.
\<close>

theorem poll_stuck_at_processing_times_out:
  assumes "isValidUUID_format ident"
      and "query_submission auth ident db = (Some row, False)"
      and "status row = Processing"
      and "\<forall>n. faults n = NoFault"
  shows "pt_queries (pollForCompletion auth faults ident st db) = 60 \<and>
         pt_timers (pollForCompletion auth faults ident st db) = 1000 # replicate 59 2000 \<and>
         error_state (pt_state (pollForCompletion auth faults ident st db))
           = Some (js ''Problem processing timed out'') \<and>
         pt_db (pollForCompletion auth faults ident st db) = db \<and>
         problem_submissions (pt_db (pollForCompletion auth faults ident st db)) ident = Some row"
proof -
  let ?tr = "\<lparr>pt_state = st, pt_queries = 0, pt_timers = [1000], pt_db = db\<rparr>"
  have q: "query_submission auth ident (pt_db ?tr) = (Some row, False)"
    using assms(2) by simp
  have s: "status row \<noteq> Completed" "status row \<noteq> StatusError"
    using assms(3) by simp_all
  have "(0::nat) < maxAttempts" by (simp add: maxAttempts_def)
  note run = poll_loop_not_terminal[OF assms(1) q s assms(4) this]
  have "problem_submissions db ident = Some row"
    using assms(2) by (rule query_submission_row)
  then show ?thesis
    unfolding pollForCompletion_def run by (simp add: maxAttempts_def)
qed

theorem poll_stuck_at_processing_times_out_witness:
  "isValidUUID_format (js ''00000000-0000-4000-8000-000000000000'') \<and>
   status processing_row = Processing \<and>
   pt_queries (pollForCompletion guest_auth (\<lambda>n. NoFault)
      (js ''00000000-0000-4000-8000-000000000000'') initial_state database_with_processing) = 60 \<and>
   pt_timers (pollForCompletion guest_auth (\<lambda>n. NoFault)
      (js ''00000000-0000-4000-8000-000000000000'') initial_state database_with_processing)
     = 1000 # replicate 59 2000 \<and>
   error_state (pt_state (pollForCompletion guest_auth (\<lambda>n. NoFault)
      (js ''00000000-0000-4000-8000-000000000000'') initial_state database_with_processing))
     = Some (js ''Problem processing timed out'') \<and>
   pt_db (pollForCompletion guest_auth (\<lambda>n. NoFault)
      (js ''00000000-0000-4000-8000-000000000000'') initial_state database_with_processing)
     = database_with_processing"
proof -
  have s: "status processing_row = Processing" by (simp add: processing_row_def)
  have f: "\<forall>n. (\<lambda>n. NoFault) n = NoFault" by simp
  show ?thesis
    using poll_stuck_at_processing_times_out[OF generated_zero_format query_guest s f, of initial_state]
      generated_zero_format s
    by simp
qed

subsection \<open>Session validation\<close>

lemma hours_since_start:
  "(real_of_int (t - start) / (1000 * 60 * 60) > 1) = (t - start > 3600000)"
proof -
  have "(real_of_int (t - start) / 3600000 > 1) = (real_of_int (t - start) > 3600000)"
    by (simp add: less_divide_eq)
  also have "\<dots> = (t - start > 3600000)"
    by linarith
  finally show ?thesis by simp
qed

lemma validate_loaded:
  assumes "session hook = Some s" and "ss_id s \<noteq> []" and "user = Some uid" and "uid \<noteq> []"
      and "select_fault env = NoFault"
      and "query_session (ss_id s) uid db = (Some row, False)"
  shows "validateSessionSecurity env user hook db =
           (if clock_now env - session_start row > 3600000
            then (False, snd (endSession env user (Some (ss_id s)) hook db))
            else (True, hook, db))"
  using assms
  by (simp add: validateSessionSecurity_def Let_def hours_since_start split: prod.splits
           del: of_int_diff)

lemma query_session_row:
  "query_session ident uid db = (Some row, err) \<Longrightarrow>
     learning_sessions db ident = Some row \<and> ls_user_id row = uid \<and> \<not> err"
  by (auto simp: query_session_def split: option.splits if_splits)

lemma endSession_update_ok:
  assumes "session hook = Some s" and "ss_id s \<noteq> []" and "uid \<noteq> []"
      and "learning_sessions db (ss_id s) = Some row" and "ls_user_id row = uid"
      and "end_update_error env = None"
  shows "\<exists>hook1 db1. endSession env (Some uid) (Some (ss_id s)) hook db = (True, hook1, db1) \<and>
           session hook1 = None \<and>
           map_option session_end (learning_sessions db1 (ss_id s)) = Some (Some (clock_end env))"
  using assms
  by (simp add: endSession_def Let_def truthy_def logSecurityEvent_def)

lemma endSession_update_fails:
  assumes "ss_id s \<noteq> []" and "uid \<noteq> []" and "end_update_error env = Some updateError"
  shows "endSession env (Some uid) (Some (ss_id s)) hook db =
           (False, hook\<lparr>session_error := Some (js ''Failed to end session'')\<rparr>, db)"
  using assms by (simp add: endSession_def Let_def truthy_def)

text \<open>
  C9 (counterexample). The session started at time 0 and the clock reads one hour and one
  millisecond; the update in \<open>endSession\<close> returns an error. The check returns failure,
  but the session is neither cleared in the hook nor ended in the store.
\<close>

theorem expired_session_not_cleared_when_update_fails:
  "validateSessionSecurity (session_env_at 3600001 (Some (js ''connection lost'')))
       (Some DEFAULT_USER_ID) hook_with_session database_with_session
     = (False, hook_with_session\<lparr>session_error := Some (js ''Failed to end session'')\<rparr>,
        database_with_session) \<and>
   session (hook_with_session\<lparr>session_error := Some (js ''Failed to end session'')\<rparr>)
     = session hook_with_session \<and>
   map_option ss_id (session hook_with_session) = Some (js ''bbbbbbbb-bbbb-4bbb-8bbb-bbbbbbbbbbbb'') \<and>
   map_option session_end
       (learning_sessions database_with_session (js ''bbbbbbbb-bbbb-4bbb-8bbb-bbbbbbbbbbbb''))
     = Some None"
  by (simp add: validateSessionSecurity_def endSession_def query_session_def Let_def truthy_def
        session_env_at_def hook_with_session_def database_with_session_def empty_database_def
        open_session_row_def DEFAULT_USER_ID_def js_def)

text \<open>
  C9 (amended). With a session in the hook and a user: when the session is loaded from
  the store, the check returns failure exactly when \<open>now - start\<close> exceeds 60 minutes
  (3600000 ms) and success otherwise, and success changes nothing; on that failure it
  calls \<open>endSession\<close>, which ends the session in the store and clears it in the hook when
  its update succeeds, and leaves both as they are (recording an error) when its update
  fails. When the session cannot be loaded, because the query returns an error or no
  row, the session is cleared in the hook and the check returns failure; when the query
  throws, the check returns failure and changes nothing.
\<close>

theorem validateSessionSecurity_sixty_minutes:
  assumes "session hook = Some s" and "ss_id s \<noteq> []" and "user = Some uid" and "uid \<noteq> []"
  shows "(select_fault env = NoFault \<and> query_session (ss_id s) uid db = (Some row, False) \<longrightarrow>
            fst (validateSessionSecurity env user hook db)
              = (\<not> clock_now env - session_start row > 3600000) \<and>
            (\<not> clock_now env - session_start row > 3600000 \<longrightarrow>
               validateSessionSecurity env user hook db = (True, hook, db)) \<and>
            (clock_now env - session_start row > 3600000 \<longrightarrow>
               validateSessionSecurity env user hook db
                 = (False, snd (endSession env user (Some (ss_id s)) hook db))) \<and>
            (clock_now env - session_start row > 3600000 \<and> end_update_error env = None \<longrightarrow>
               session (fst (snd (validateSessionSecurity env user hook db))) = None \<and>
               map_option session_end
                   (learning_sessions (snd (snd (validateSessionSecurity env user hook db))) (ss_id s))
                 = Some (Some (clock_end env))) \<and>
            (clock_now env - session_start row > 3600000 \<and> end_update_error env \<noteq> None \<longrightarrow>
               validateSessionSecurity env user hook db
                 = (False, hook\<lparr>session_error := Some (js ''Failed to end session'')\<rparr>, db))) \<and>
         (select_fault env = ReturnsError \<or>
            (select_fault env = NoFault \<and> fst (query_session (ss_id s) uid db) = None) \<longrightarrow>
            validateSessionSecurity env user hook db = (False, hook\<lparr>session := None\<rparr>, db)) \<and>
         (select_fault env = Throws \<longrightarrow>
            validateSessionSecurity env user hook db = (False, hook, db))"
proof -
  have loaded: ?thesis
    if nf: "select_fault env = NoFault" and q: "query_session (ss_id s) uid db = (Some row, False)"
  proof -
    note v = validate_loaded[OF assms nf q]
    from query_session_row[OF q]
    have row: "learning_sessions db (ss_id s) = Some row" "ls_user_id row = uid" by simp_all
    have ok: "session (fst (snd (validateSessionSecurity env user hook db))) = None \<and>
              map_option session_end
                  (learning_sessions (snd (snd (validateSessionSecurity env user hook db))) (ss_id s))
                = Some (Some (clock_end env))"
      if "clock_now env - session_start row > 3600000" and "end_update_error env = None"
      using endSession_update_ok[OF assms(1,2,4) row that(2)] that(1) v assms(3) by auto
    have bad: "validateSessionSecurity env user hook db
                 = (False, hook\<lparr>session_error := Some (js ''Failed to end session'')\<rparr>, db)"
      if late: "clock_now env - session_start row > 3600000"
        and failing: "end_update_error env \<noteq> None"
    proof -
      obtain updateError where "end_update_error env = Some updateError"
        using failing by auto
      from endSession_update_fails[OF assms(2,4) this, of hook db] late v assms(3)
      show ?thesis by simp
    qed
    show ?thesis using v ok bad nf q by auto
  qed
  have missing: "validateSessionSecurity env user hook db = (False, hook\<lparr>session := None\<rparr>, db)"
    if "select_fault env = ReturnsError \<or>
          (select_fault env = NoFault \<and> fst (query_session (ss_id s) uid db) = None)"
    using that assms
    by (auto simp: validateSessionSecurity_def Let_def split: prod.splits)
  have thrown: "validateSessionSecurity env user hook db = (False, hook, db)"
    if "select_fault env = Throws"
    using that assms by (simp add: validateSessionSecurity_def)
  show ?thesis
  proof (cases "select_fault env = NoFault \<and> query_session (ss_id s) uid db = (Some row, False)")
    case True
    then show ?thesis using loaded by blast
  next
    case False
    then show ?thesis using missing thrown by blast
  qed
qed

theorem validateSessionSecurity_sixty_minutes_witness:
  "validateSessionSecurity (session_env_at 3600000 None) (Some DEFAULT_USER_ID)
       hook_with_session database_with_session
     = (True, hook_with_session, database_with_session) \<and>
   fst (validateSessionSecurity (session_env_at 3600001 None) (Some DEFAULT_USER_ID)
       hook_with_session database_with_session) = False \<and>
   session (fst (snd (validateSessionSecurity (session_env_at 3600001 None) (Some DEFAULT_USER_ID)
       hook_with_session database_with_session))) = None \<and>
   map_option session_end
     (learning_sessions
        (snd (snd (validateSessionSecurity (session_env_at 3600001 None) (Some DEFAULT_USER_ID)
                     hook_with_session database_with_session)))
        (js ''bbbbbbbb-bbbb-4bbb-8bbb-bbbbbbbbbbbb'')) = Some (Some 3600001)"
proof -
  let ?s = "the (session hook_with_session)"
  have h: "session hook_with_session = Some ?s" by (simp add: hook_with_session_def)
  have i: "ss_id ?s = js ''bbbbbbbb-bbbb-4bbb-8bbb-bbbbbbbbbbbb''"
    by (simp add: hook_with_session_def)
  have n: "ss_id ?s \<noteq> []" "DEFAULT_USER_ID \<noteq> []"
    by (simp_all add: hook_with_session_def DEFAULT_USER_ID_def js_def)
  have q: "query_session (ss_id ?s) DEFAULT_USER_ID database_with_session
             = (Some open_session_row, False)"
    by (simp add: i query_session_def database_with_session_def empty_database_def
          open_session_row_def)
  have e: "select_fault (session_env_at t err) = NoFault" "clock_now (session_env_at t err) = t"
          "clock_end (session_env_at t err) = t" "end_update_error (session_env_at t err) = err"
    for t err
    by (simp_all add: session_env_at_def)
  have st: "session_start open_session_row = 0" by (simp add: open_session_row_def)
  have pre: "select_fault (session_env_at t None) = NoFault \<and>
             query_session (ss_id ?s) DEFAULT_USER_ID database_with_session
               = (Some open_session_row, False)" for t
    using q by (simp add: e)
  have in_time: "\<not> clock_now (session_env_at 3600000 None) - session_start open_session_row > 3600000"
    by (simp add: e st)
  have late: "clock_now (session_env_at 3600001 None) - session_start open_session_row > 3600000"
             "clock_now (session_env_at 3600001 None) - session_start open_session_row > 3600000 \<and>
              end_update_error (session_env_at 3600001 None) = None"
    by (simp_all add: e st)
  from validateSessionSecurity_sixty_minutes
         [OF h n(1) refl n(2), of "session_env_at 3600000 None" database_with_session open_session_row]
       pre in_time
  have a: "validateSessionSecurity (session_env_at 3600000 None) (Some DEFAULT_USER_ID)
             hook_with_session database_with_session
           = (True, hook_with_session, database_with_session)"
    by blast
  from validateSessionSecurity_sixty_minutes
         [OF h n(1) refl n(2), of "session_env_at 3600001 None" database_with_session open_session_row]
       pre late
  have b: "fst (validateSessionSecurity (session_env_at 3600001 None) (Some DEFAULT_USER_ID)
             hook_with_session database_with_session) = False"
    and c: "session (fst (snd (validateSessionSecurity (session_env_at 3600001 None)
             (Some DEFAULT_USER_ID) hook_with_session database_with_session))) = None \<and>
            map_option session_end
              (learning_sessions
                 (snd (snd (validateSessionSecurity (session_env_at 3600001 None)
                     (Some DEFAULT_USER_ID) hook_with_session database_with_session)))
                 (ss_id ?s)) = Some (Some (clock_end (session_env_at 3600001 None)))"
    by blast+
  show ?thesis using a b c unfolding i e by blast
qed

end
